theory Spec2Isabelle
  imports Complex_Main "HOL-Library.Product_Lexorder"
begin

section \<open>Data model\<close>

text \<open>
  A row of the table \<open>dynamic_sales\<close> as both scripts select it. Identifiers and
  quantities are Python integers. \<open>sold_at\<close> is kept as the value that
  \<^verbatim>\<open>pd.to_datetime(..., utc=True)\<close> yields: the calendar fields of the instant in UTC.
\<close>

record utc_time =
  year :: nat
  month_of_year :: nat
  day_of_month :: nat
  second_of_day :: nat

record sale =
  dynamic_product_id :: int
  store_id :: int
  quantity :: int
  sold_at :: utc_time

text \<open>
  \<^verbatim>\<open>sold_at.dt.to_period("M").astype(str)\<close> is the label \<^verbatim>\<open>YYYY-MM\<close>. The label is kept
  as the pair (year, month); the lexicographic order of pairs is the order of the labels
  as strings, the years of a pandas timestamp having four digits.
\<close>

type_synonym month_label = "nat \<times> nat"

definition to_period_M :: "utc_time \<Rightarrow> month_label" where
  "to_period_M t = (year t, month_of_year t)"

type_synonym group_key = "int \<times> int \<times> month_label"

definition sale_key :: "sale \<Rightarrow> group_key" where
  "sale_key r = (dynamic_product_id r, store_id r, to_period_M (sold_at r))"

definition sale_pair :: "sale \<Rightarrow> int \<times> int" where
  "sale_pair r = (dynamic_product_id r, store_id r)"

section \<open>Aggregation by product, store and month\<close>

text \<open>
  The column \<open>quantity\<close> of the frame is of type int64 when every quantity is within 64
  bits (a frame with a quantity outside that range has another column type, and is not
  modelled). An int64 sum wraps around: \<open>wrap64\<close> is the value of an integer as a signed
  64-bit number.
\<close>

definition in_int64 :: "int \<Rightarrow> bool" where
  "in_int64 x = (- (2 ^ 63) \<le> x \<and> x < 2 ^ 63)"

definition wrap64 :: "int \<Rightarrow> int" where
  "wrap64 x = signed_take_bit 63 x"

text \<open>
  \<^verbatim>\<open>groupby([...])["quantity"].sum()\<close>: every row is added to the running int64 total of
  its key, a key seen for the first time opens a new group, and the groups come out sorted
  by key (pandas sorts group keys by default).
\<close>

fun group_add :: "'k \<Rightarrow> int \<Rightarrow> ('k \<times> int) list \<Rightarrow> ('k \<times> int) list" where
  "group_add k q [] = [(k, q)]"
| "group_add k q ((k', t) # gs) =
     (if k' = k then (k', wrap64 (t + q)) # gs else (k', t) # group_add k q gs)"

definition groupby_sum :: "sale list \<Rightarrow> (group_key \<times> int) list" where
  "groupby_sum df =
     sort_key fst (foldl (\<lambda>gs r. group_add (sale_key r) (quantity r) gs) [] df)"

text \<open>A row of \<^verbatim>\<open>monthly_sales\<close> after \<^verbatim>\<open>reset_index()\<close>.\<close>

record bucket =
  b_product_id :: int
  b_store_id :: int
  b_month :: month_label
  b_quantity :: int

definition mk_bucket :: "group_key \<times> int \<Rightarrow> bucket" where
  "mk_bucket g = (case g of ((p, s, m), t) \<Rightarrow>
     \<lparr>b_product_id = p, b_store_id = s, b_month = m, b_quantity = t\<rparr>)"

definition bucket_key :: "bucket \<Rightarrow> group_key" where
  "bucket_key b = (b_product_id b, b_store_id b, b_month b)"

definition bucket_pair :: "bucket \<Rightarrow> int \<times> int" where
  "bucket_pair b = (b_product_id b, b_store_id b)"

definition monthly_sales :: "sale list \<Rightarrow> bucket list" where
  "monthly_sales df = map mk_bucket (groupby_sum df)"

text \<open>
  The sum the specification asks of a bucket: the quantities of the rows of its key, as an
  integer of any size.
\<close>

definition matching_total :: "sale list \<Rightarrow> group_key \<Rightarrow> int" where
  "matching_total df k = sum_list (map quantity (filter (\<lambda>r. sale_key r = k) df))"

text \<open>
  For the proofs: the running totals after the rows \<open>df\<close>, from the groups \<open>gs0\<close>, and the
  total stored under a key (0 when the key has no group).
\<close>

definition accumulate :: "sale list \<Rightarrow> (group_key \<times> int) list \<Rightarrow> (group_key \<times> int) list" where
  "accumulate df gs0 = foldl (\<lambda>gs r. group_add (sale_key r) (quantity r) gs) gs0 df"

fun total_of :: "('k \<times> int) list \<Rightarrow> 'k \<Rightarrow> int" where
  "total_of [] k = 0"
| "total_of ((k', t) # gs) k = (if k' = k then t else total_of gs k)"

section \<open>Library arithmetic\<close>

text \<open>
  The numeric library functions the scripts call, over exact reals: \<^verbatim>\<open>np.mean\<close>,
  \<^verbatim>\<open>np.std\<close> (population standard deviation, \<^verbatim>\<open>ddof=0\<close>), and the pandas
  \<^verbatim>\<open>Series.mean()\<close> and \<^verbatim>\<open>Series.std()\<close> (sample standard deviation,
  \<^verbatim>\<open>ddof=1\<close>). The scripts call the numpy functions on series of three or more values
  only. A pandas result that is NaN is \<open>None\<close>: the sample standard deviation of fewer
  than two values, and the mean of no value.
\<close>

definition np_mean :: "int list \<Rightarrow> real" where
  "np_mean xs = real_of_int (sum_list xs) / real (length xs)"

definition sum_sq_dev :: "int list \<Rightarrow> real" where
  "sum_sq_dev xs = sum_list (map (\<lambda>x. (real_of_int x - np_mean xs)\<^sup>2) xs)"

definition np_std :: "int list \<Rightarrow> real" where
  "np_std xs = sqrt (sum_sq_dev xs / real (length xs))"

definition series_mean :: "int list \<Rightarrow> real option" where
  "series_mean xs = (if xs = [] then None else Some (np_mean xs))"

definition series_std :: "int list \<Rightarrow> real option" where
  "series_std xs =
     (if length xs < 2 then None else Some (sqrt (sum_sq_dev xs / real (length xs - 1))))"

text \<open>Arithmetic and comparisons with NaN: a NaN operand gives NaN, a comparison with NaN is false.\<close>

definition nan_add :: "real option \<Rightarrow> real option \<Rightarrow> real option" where
  "nan_add a b = (case (a, b) of (Some x, Some y) \<Rightarrow> Some (x + y) | _ \<Rightarrow> None)"

definition nan_sub :: "real option \<Rightarrow> real option \<Rightarrow> real option" where
  "nan_sub a b = (case (a, b) of (Some x, Some y) \<Rightarrow> Some (x - y) | _ \<Rightarrow> None)"

definition ge_nan :: "int \<Rightarrow> real option \<Rightarrow> bool" where
  "ge_nan q t = (case t of None \<Rightarrow> False | Some x \<Rightarrow> real_of_int q \<ge> x)"

definition le_nan :: "int \<Rightarrow> real option \<Rightarrow> bool" where
  "le_nan q t = (case t of None \<Rightarrow> False | Some x \<Rightarrow> real_of_int q \<le> x)"

text \<open>
  \<^verbatim>\<open>df[[...]].drop_duplicates().values\<close>: the distinct rows in the order of their first
  occurrence.
\<close>

fun drop_duplicates :: "'a list \<Rightarrow> 'a list" where
  "drop_duplicates [] = []"
| "drop_duplicates (x # xs) = x # drop_duplicates (filter (\<lambda>y. y \<noteq> x) xs)"

section \<open>Errors and the clock\<close>

text \<open>
  The exceptions of a run. \<open>KeyError\<close> is raised by pandas when a column is read from a
  frame that does not have it, \<open>TypeError\<close> by \<^verbatim>\<open>int(None)\<close>, \<open>UpstreamError\<close> by the
  record store's client when a query or an insert fails.
\<close>

datatype exn = KeyError string | TypeError string | UpstreamError string

fun exn_str :: "exn \<Rightarrow> string" where
  "exn_str (KeyError k) = [CHR 0x27] @ k @ [CHR 0x27]"
| "exn_str (TypeError m) = m"
| "exn_str (UpstreamError m) = m"

text \<open>
  \<^verbatim>\<open>datetime.now(timezone.utc)\<close> is read once for every entity a run builds. A clock gives
  the value of the k-th reading of a run.
\<close>

type_synonym clock = "nat \<Rightarrow> int"

section \<open>Z-score anomaly detection (salesforcast.py)\<close>

datatype anomaly_kind = High | Low

record anomaly =
  a_product_id :: int
  a_store_id :: int
  a_quantity :: int
  a_sold_at :: utc_time
  anomaly_type :: anomaly_kind
  a_created_at :: int

text \<open>\<^verbatim>\<open>[(q - mean) / std if std > 0 else 0 for q in quantities]\<close>\<close>

definition z_scores :: "int list \<Rightarrow> real list" where
  "z_scores quantities =
     (let mean = np_mean quantities; std = np_std quantities
      in map (\<lambda>q. if std > 0 then (real_of_int q - mean) / std else 0) quantities)"

text \<open>\<^verbatim>\<open>[i for i, z in enumerate(z_scores) if abs(z) > 3]\<close>\<close>

definition anomaly_indices :: "real list \<Rightarrow> nat list" where
  "anomaly_indices zs = filter (\<lambda>i. \<bar>zs ! i\<bar> > 3) [0..<length zs]"

text \<open>
  The body of the loop over the flagged indices: one entity is appended for each index.
  Every index is below the length of the series, so \<^verbatim>\<open>iloc[idx]\<close> and
  \<^verbatim>\<open>z_scores[idx]\<close> are in range.
\<close>

definition zscore_entity :: "clock \<Rightarrow> sale list \<Rightarrow> real list \<Rightarrow> anomaly list \<Rightarrow> nat \<Rightarrow> anomaly list" where
  "zscore_entity now product_sales zs anomalies idx =
     (let row = product_sales ! idx
      in anomalies @
         [\<lparr>a_product_id = dynamic_product_id row, a_store_id = store_id row,
           a_quantity = quantity row, a_sold_at = sold_at row,
           anomaly_type = (if zs ! idx > 0 then High else Low),
           a_created_at = now (length anomalies)\<rparr>])"

text \<open>The body of the loop over the pairs, for the rows \<open>product_sales\<close> of one pair.\<close>

definition zscore_pair :: "clock \<Rightarrow> anomaly list \<Rightarrow> sale list \<Rightarrow> anomaly list" where
  "zscore_pair now anomalies product_sales =
     (let quantities = map quantity product_sales
      in if length quantities < 3 then anomalies
         else let zs = z_scores quantities
              in foldl (zscore_entity now product_sales zs) anomalies (anomaly_indices zs))"

text \<open>
  \<^verbatim>\<open>detect_anomalies\<close> of salesforcast.py, on the rows the query returned. The frame of an
  empty result has no column, and reading \<^verbatim>\<open>sales_df["sold_at"]\<close> raises \<open>KeyError\<close>.
  The insert of the result into the record store is not part of the model.
\<close>

definition salesforcast_detect_anomalies :: "clock \<Rightarrow> sale list \<Rightarrow> exn + anomaly list" where
  "salesforcast_detect_anomalies now sales =
     (if sales = [] then Inl (KeyError ''sold_at'')
      else Inr (foldl (\<lambda>anomalies pair.
                  zscore_pair now anomalies (filter (\<lambda>r. sale_pair r = pair) sales))
                [] (drop_duplicates (map sale_pair sales))))"

text \<open>
  The z-score of the specification: \<open>(q - \<mu>) / \<sigma>\<close> with \<open>\<mu>\<close> the mean and \<open>\<sigma>\<close> the
  population standard deviation of the series, and 0 when \<open>\<sigma> = 0\<close>.
\<close>

definition spec_mu :: "int list \<Rightarrow> real" where
  "spec_mu qs = (\<Sum>q\<leftarrow>qs. real_of_int q) / real (length qs)"

definition spec_sigma :: "int list \<Rightarrow> real" where
  "spec_sigma qs = sqrt ((\<Sum>q\<leftarrow>qs. (real_of_int q - spec_mu qs)\<^sup>2) / real (length qs))"

definition spec_z :: "int list \<Rightarrow> int \<Rightarrow> real" where
  "spec_z qs q =
     (if spec_sigma qs = 0 then 0 else (real_of_int q - spec_mu qs) / spec_sigma qs)"

text \<open>What the detector reports of a flagged row.\<close>

definition flagged_point ::
  "'a anomaly_scheme \<Rightarrow> int \<times> int \<times> int \<times> utc_time \<times> anomaly_kind" where
  "flagged_point a = (a_product_id a, a_store_id a, a_quantity a, a_sold_at a, anomaly_type a)"

text \<open>The report of a row with z-score \<open>z\<close>.\<close>

definition point_of :: "sale \<Rightarrow> real \<Rightarrow> int \<times> int \<times> int \<times> utc_time \<times> anomaly_kind" where
  "point_of r z = (dynamic_product_id r, store_id r, quantity r, sold_at r, if z > 0 then High else Low)"

section \<open>Pattern analysis (recommendations.py)\<close>

text \<open>
  A display name is the name the record store has for an identifier, or the label
  \<^verbatim>\<open>Product ID: n\<close> or \<^verbatim>\<open>Store ID: n\<close> the scripts format when it has none.
\<close>

datatype display_name = Name string | ProductLabel int | StoreLabel int

definition product_name_of :: "(int \<Rightarrow> string list) \<Rightarrow> int \<Rightarrow> display_name" where
  "product_name_of names pid =
     (case names pid of [] \<Rightarrow> ProductLabel pid | n # _ \<Rightarrow> Name n)"

definition shop_name_of :: "(int \<Rightarrow> string list) \<Rightarrow> int \<Rightarrow> display_name" where
  "shop_name_of names sid =
     (case names sid of [] \<Rightarrow> StoreLabel sid | n # _ \<Rightarrow> Name n)"

text \<open>
  The three sentences of a recommendation, by their template; the product name and the
  month they mention are fields of the entity.
\<close>

datatype advice = Restock_high_demand | High_demand_plan_inventory | Purchase_less_frequently

record recommendation =
  r_product_id :: int
  r_store_id :: int
  r_product_name :: display_name
  r_shop_name :: display_name
  r_month :: month_label
  quantity_sold :: int
  r_recommendation :: advice
  r_created_at :: int

record patterns =
  restock_recommendations :: "recommendation list"
  avoid_restock :: "recommendation list"
  high_demand_periods :: "recommendation list"

definition no_patterns :: patterns where
  "no_patterns = \<lparr>restock_recommendations = [], avoid_restock = [], high_demand_periods = []\<rparr>"

text \<open>The readings of the clock so far: one for every entity appended.\<close>

definition readings :: "patterns \<Rightarrow> nat" where
  "readings acc = length (restock_recommendations acc) + length (avoid_restock acc)
                  + length (high_demand_periods acc)"

text \<open>
  The body of the loop over the monthly rows of one pair. The thresholds may be NaN
  (\<open>None\<close>); \<^verbatim>\<open>elif\<close> makes the low branch run only when the high branch did not.
\<close>

definition classify_row ::
  "clock \<Rightarrow> real option \<Rightarrow> real option \<Rightarrow> int \<times> int \<Rightarrow> display_name \<Rightarrow> display_name
     \<Rightarrow> patterns \<Rightarrow> bucket \<Rightarrow> patterns" where
  "classify_row now high low pair product_name shop_name acc row =
     (let q = b_quantity row;
          entity = (\<lambda>sentence created. \<lparr>r_product_id = fst pair, r_store_id = snd pair,
                      r_product_name = product_name, r_shop_name = shop_name,
                      r_month = b_month row, quantity_sold = q,
                      r_recommendation = sentence, r_created_at = created\<rparr>)
      in if ge_nan q high then
           acc\<lparr>restock_recommendations :=
                  restock_recommendations acc @ [entity Restock_high_demand (now (readings acc))],
               high_demand_periods :=
                  high_demand_periods acc
                    @ [entity High_demand_plan_inventory (now (readings acc + 1))]\<rparr>
         else if le_nan q low then
           acc\<lparr>avoid_restock :=
                  avoid_restock acc @ [entity Purchase_less_frequently (now (readings acc))]\<rparr>
         else acc)"

text \<open>The body of the loop over the pairs of \<^verbatim>\<open>monthly_sales\<close>.\<close>

definition classify_pair ::
  "clock \<Rightarrow> (int \<Rightarrow> string list) \<Rightarrow> (int \<Rightarrow> string list) \<Rightarrow> real option \<Rightarrow> real option
     \<Rightarrow> bucket list \<Rightarrow> patterns \<Rightarrow> int \<times> int \<Rightarrow> patterns" where
  "classify_pair now product_names shop_names high low monthly acc pair =
     (let product_data = filter (\<lambda>b. bucket_pair b = pair) monthly;
          product_name = product_name_of product_names (fst pair);
          shop_name = shop_name_of shop_names (snd pair)
      in foldl (classify_row now high low pair product_name shop_name) acc product_data)"

definition mean_sales :: "bucket list \<Rightarrow> real option" where
  "mean_sales monthly = series_mean (map b_quantity monthly)"

definition high_sales_threshold :: "bucket list \<Rightarrow> real option" where
  "high_sales_threshold monthly =
     nan_add (mean_sales monthly) (series_std (map b_quantity monthly))"

definition low_sales_threshold :: "bucket list \<Rightarrow> real option" where
  "low_sales_threshold monthly =
     nan_sub (mean_sales monthly) (series_std (map b_quantity monthly))"

text \<open>
  Lines 129 to 179 of \<^verbatim>\<open>analyze_sales_patterns\<close>: the thresholds over all the monthly
  rows, then the two loops.
\<close>

definition classify_buckets ::
  "clock \<Rightarrow> (int \<Rightarrow> string list) \<Rightarrow> (int \<Rightarrow> string list) \<Rightarrow> bucket list \<Rightarrow> patterns" where
  "classify_buckets now product_names shop_names monthly =
     foldl (classify_pair now product_names shop_names
              (high_sales_threshold monthly) (low_sales_threshold monthly) monthly)
       no_patterns (drop_duplicates (map bucket_pair monthly))"

text \<open>
  The entities of a list that belong to a bucket: those with its product, store and month.
\<close>

definition rec_key :: "recommendation \<Rightarrow> group_key" where
  "rec_key e = (r_product_id e, r_store_id e, r_month e)"

definition emitted :: "recommendation list \<Rightarrow> group_key \<Rightarrow> recommendation list" where
  "emitted es k = filter (\<lambda>e. rec_key e = k) es"

text \<open>What an entity says: its bucket, the quantity it reports and its sentence.\<close>

definition rec_core :: "recommendation \<Rightarrow> group_key \<times> int \<times> advice" where
  "rec_core e = (rec_key e, quantity_sold e, r_recommendation e)"

text \<open>The order in which the two loops visit the monthly rows: pair by pair.\<close>

definition visit_order :: "bucket list \<Rightarrow> bucket list" where
  "visit_order monthly =
     concat (map (\<lambda>p. filter (\<lambda>b. bucket_pair b = p) monthly)
                 (drop_duplicates (map bucket_pair monthly)))"

text \<open>
  The thresholds in the words of the specification, for two or more buckets: the mean
  plus and minus the sample standard deviation of the bucket totals.
\<close>

definition spec_sample_sigma :: "int list \<Rightarrow> real" where
  "spec_sample_sigma qs =
     sqrt ((\<Sum>q\<leftarrow>qs. (real_of_int q - spec_mu qs)\<^sup>2) / (real (length qs) - 1))"

section \<open>The record store and the functions of recommendations.py\<close>

text \<open>
  The argument \<open>store_id\<close> of the two functions is \<open>None\<close>, an integer or a string as
  Flask delivers it; \<^verbatim>\<open>if store_id:\<close> tests its truth value.
\<close>

datatype py_value = PyNone | PyInt int | PyStr string

fun truthy :: "py_value \<Rightarrow> bool" where
  "truthy PyNone = False"
| "truthy (PyInt n) = (n \<noteq> 0)"
| "truthy (PyStr s) = (s \<noteq> [])"

text \<open>An anomaly of recommendations.py carries the two display names as well.\<close>

record named_anomaly = anomaly +
  a_product_name :: display_name
  a_shop_name :: display_name

text \<open>
  The record store as recommendations.py uses it. \<open>select_sales\<close> is the query on
  \<open>dynamic_sales\<close> with its row limit and the store filter it is given (\<open>PyNone\<close>: no
  filter); it and the two inserts may raise. The name lookups are total: a lookup that
  raises is not modelled.
\<close>

record store_db =
  select_sales :: "py_value \<Rightarrow> exn + sale list"
  select_product_name :: "int \<Rightarrow> string list"
  select_shop_name :: "int \<Rightarrow> string list"
  insert_anomalies :: "named_anomaly list \<Rightarrow> exn option"
  insert_recommendations :: "recommendation list \<Rightarrow> exn option"

definition store_filter :: "py_value \<Rightarrow> py_value" where
  "store_filter sid = (if truthy sid then sid else PyNone)"

definition analyze_sales_patterns :: "clock \<Rightarrow> store_db \<Rightarrow> py_value \<Rightarrow> exn + patterns" where
  "analyze_sales_patterns now db sid =
     (case select_sales db (store_filter sid) of
        Inl e \<Rightarrow> Inl e
      | Inr sales \<Rightarrow>
          if sales = [] then Inr no_patterns
          else
            let result = classify_buckets now (select_product_name db) (select_shop_name db)
                           (monthly_sales sales)
            in if restock_recommendations result \<noteq> [] \<or> avoid_restock result \<noteq> []
                  \<or> high_demand_periods result \<noteq> []
               then (case insert_recommendations db
                            (restock_recommendations result @ avoid_restock result
                               @ high_demand_periods result) of
                       Some e \<Rightarrow> Inl e
                     | None \<Rightarrow> Inr result)
               else Inr result)"

section \<open>Density-based anomaly detection (recommendations.py)\<close>

text \<open>
  \<^verbatim>\<open>IsolationForest(n_estimators=20, max_samples=128, contamination=0.05,
  random_state=42, n_jobs=1).fit_predict\<close> is a function of scikit-learn, not of this
  repository: it is a parameter \<open>fit_predict\<close> of the model, from the quantity column to
  either an exception or the labels (1 or -1, one for a row). The forest is fitted anew
  on every call with the fixed seed 42, so the labels depend on the column only.
\<close>

type_synonym iso_forest = "int list \<Rightarrow> exn + int list"

definition density_entity ::
  "clock \<Rightarrow> display_name \<Rightarrow> display_name \<Rightarrow> sale list \<Rightarrow> named_anomaly list \<Rightarrow> nat
     \<Rightarrow> named_anomaly list" where
  "density_entity now product_name shop_name product_data anomalies idx =
     (let row = product_data ! idx
      in anomalies @
         [\<lparr>a_product_id = dynamic_product_id row, a_store_id = store_id row,
           a_quantity = quantity row, a_sold_at = sold_at row,
           anomaly_type = (if real_of_int (quantity row) > np_mean (map quantity product_data)
                           then High else Low),
           a_created_at = now (length anomalies),
           a_product_name = product_name, a_shop_name = shop_name\<rparr>])"

text \<open>
  The body of the loop over the pairs. An exception of the forest is caught and the pair
  skipped; so is the \<open>ValueError\<close> pandas raises when the labels do not have the length
  of the frame.
\<close>

definition density_pair ::
  "clock \<Rightarrow> (int \<Rightarrow> string list) \<Rightarrow> (int \<Rightarrow> string list) \<Rightarrow> iso_forest
     \<Rightarrow> sale list \<Rightarrow> named_anomaly list \<Rightarrow> int \<times> int \<Rightarrow> named_anomaly list" where
  "density_pair now product_names shop_names fit_predict sales anomalies pair =
     (let product_data = filter (\<lambda>r. sale_pair r = pair) sales
      in if length product_data < 3 then anomalies
         else if length product_data > 500 then anomalies
         else (case fit_predict (map quantity product_data) of
                 Inl e \<Rightarrow> anomalies
               | Inr labels \<Rightarrow>
                   if length labels \<noteq> length product_data then anomalies
                   else foldl (density_entity now (product_name_of product_names (fst pair))
                                 (shop_name_of shop_names (snd pair)) product_data)
                          anomalies
                          (filter (\<lambda>i. labels ! i = - 1) [0..<length product_data])))"

definition density_anomalies ::
  "clock \<Rightarrow> (int \<Rightarrow> string list) \<Rightarrow> (int \<Rightarrow> string list) \<Rightarrow> iso_forest \<Rightarrow> sale list
     \<Rightarrow> named_anomaly list" where
  "density_anomalies now product_names shop_names fit_predict sales =
     foldl (density_pair now product_names shop_names fit_predict sales) []
       (drop_duplicates (map sale_pair sales))"


definition recommendations_detect_anomalies ::
  "clock \<Rightarrow> store_db \<Rightarrow> iso_forest \<Rightarrow> py_value \<Rightarrow> exn + named_anomaly list" where
  "recommendations_detect_anomalies now db fit_predict sid =
     (case select_sales db (store_filter sid) of
        Inl e \<Rightarrow> Inl e
      | Inr sales \<Rightarrow>
          if sales = [] then Inr []
          else
            let anomalies = density_anomalies now (select_product_name db) (select_shop_name db)
                              fit_predict sales
            in if anomalies \<noteq> []
               then (case insert_anomalies db anomalies of
                       Some e \<Rightarrow> Inl e
                     | None \<Rightarrow> Inr anomalies)
               else Inr anomalies)"

section \<open>Demand forecast (salesforcast.py)\<close>

text \<open>
  \<^verbatim>\<open>LinearRegression().fit(X, y)\<close> with \<^verbatim>\<open>X = [[0], [1], ..., [n - 1]]\<close> is a function
  of scikit-learn: ordinary least squares with an intercept. It centres both columns,
  solves for the coefficient and sets the intercept to the mean of \<open>y\<close> minus the
  coefficient times the mean of \<open>X\<close>. Over exact reals, for two or more points:
\<close>

definition x_mean :: "nat \<Rightarrow> real" where
  "x_mean n = (\<Sum>i\<leftarrow>[0..<n]. real i) / real n"

definition lr_coef :: "int list \<Rightarrow> real" where
  "lr_coef y =
     (\<Sum>i\<leftarrow>[0..<length y]. (real i - x_mean (length y)) * (real_of_int (y ! i) - np_mean y))
     / (\<Sum>i\<leftarrow>[0..<length y]. (real i - x_mean (length y))\<^sup>2)"

definition lr_intercept :: "int list \<Rightarrow> real" where
  "lr_intercept y = np_mean y - lr_coef y * x_mean (length y)"

definition lr_predict :: "int list \<Rightarrow> real \<Rightarrow> real" where
  "lr_predict y x = lr_intercept y + lr_coef y * x"

text \<open>
  The sum of the squared residuals of the line \<open>a + b * i\<close> on the series: what a
  least-squares regression against the month index 0, 1, 2, ... minimises.
\<close>

definition sse :: "int list \<Rightarrow> real \<Rightarrow> real \<Rightarrow> real" where
  "sse y a b = (\<Sum>i\<leftarrow>[0..<length y]. (real_of_int (y ! i) - (a + b * real i))\<^sup>2)"

definition least_squares_line :: "int list \<Rightarrow> real \<Rightarrow> real \<Rightarrow> bool" where
  "least_squares_line y a b = (\<forall>a' b'. sse y a b \<le> sse y a' b')"

text \<open>The residual of the fitted line at the index \<open>i\<close>.\<close>

definition residual :: "int list \<Rightarrow> nat \<Rightarrow> real" where
  "residual y i = real_of_int (y ! i) - (lr_intercept y + lr_coef y * real i)"

text \<open>
  \<^verbatim>\<open>round(float(x), 2)\<close> over exact reals: to the nearest hundredth, a tie to the even one.
\<close>

definition round_half_even :: "real \<Rightarrow> int" where
  "round_half_even x =
     (let f = \<lfloor>x\<rfloor>; d = x - real_of_int f
      in if d < 1 / 2 then f else if d > 1 / 2 then f + 1 else if even f then f else f + 1)"

definition round2 :: "real \<Rightarrow> real" where
  "round2 x = real_of_int (round_half_even (x * 100)) / 100"

datatype verdict = Restock_recommended | No_restock_needed

text \<open>A row of \<open>dynamic_inventory\<close>; either column may be null.\<close>

record inventory_row =
  available_qty :: "int option"
  reorder_level :: "int option"

text \<open>
  A forecast, over the type \<open>'f\<close> of the demand it reports. \<open>forecast_period_of\<close> is the
  instant, 30 days after the reading of the clock, whose year and month
  \<^verbatim>\<open>strftime("%Y-%m")\<close> prints; a reading is in seconds.
\<close>

record 'f forecast =
  f_product_id :: int
  f_store_id :: int
  predicted_demand :: 'f
  current_stock :: int
  f_product_name :: display_name
  f_shop_name :: display_name
  f_recommendation :: verdict
  forecast_period_of :: int
  f_created_at :: int

text \<open>The message of the \<open>TypeError\<close> that \<^verbatim>\<open>int(None)\<close> raises.\<close>

definition int_none_message :: string where
  "int_none_message =
     ''int() argument must be a string, a bytes-like object or a real number, not ''
     @ [CHR 0x27] @ ''NoneType'' @ [CHR 0x27]"

text \<open>
  \<^verbatim>\<open>int(inventory[0]["available_qty"]) if inventory else 0\<close>: the guard tests the list
  only, and \<^verbatim>\<open>int(None)\<close> raises when the column of the first row is null.
\<close>

definition current_stock_of :: "inventory_row list \<Rightarrow> exn + int" where
  "current_stock_of inventory =
     (case inventory of
        [] \<Rightarrow> Inr 0
      | row # _ \<Rightarrow> (case available_qty row of
                     None \<Rightarrow> Inl (TypeError int_none_message)
                   | Some v \<Rightarrow> Inr v))"

text \<open>
  \<^verbatim>\<open>int(inventory[0]["reorder_level"]) if inventory and inventory[0]["reorder_level"] is
  not None else 0\<close>
\<close>

definition reorder_level_of :: "inventory_row list \<Rightarrow> int" where
  "reorder_level_of inventory =
     (case inventory of
        [] \<Rightarrow> 0
      | row # _ \<Rightarrow> (case reorder_level row of None \<Rightarrow> 0 | Some v \<Rightarrow> v))"

text \<open>
  The body of the loop over the pairs, from the series \<open>y\<close> on: the monthly totals of the
  pair in the order of the months. The clock is read twice for a forecast.
\<close>

definition forecast_series ::
  "clock \<Rightarrow> inventory_row list \<Rightarrow> display_name \<Rightarrow> display_name \<Rightarrow> real forecast list
     \<Rightarrow> int \<times> int \<Rightarrow> int list \<Rightarrow> exn + real forecast list" where
  "forecast_series now inventory product_name shop_name forecasts pair y =
     (if length y < 2 then Inr forecasts
      else
        let predicted = max 0 (lr_predict y (real (length y)))
        in (case current_stock_of inventory of
              Inl e \<Rightarrow> Inl e
            | Inr stock \<Rightarrow>
                Inr (forecasts @
                  [\<lparr>f_product_id = fst pair, f_store_id = snd pair,
                    predicted_demand = round2 predicted,
                    current_stock = stock,
                    f_product_name = product_name, f_shop_name = shop_name,
                    f_recommendation =
                      (if predicted > real_of_int (stock + reorder_level_of inventory)
                       then Restock_recommended else No_restock_needed),
                    forecast_period_of = now (2 * length forecasts) + 30 * 86400,
                    f_created_at = now (2 * length forecasts + 1)\<rparr>])))"

definition forecast_pair ::
  "clock \<Rightarrow> (int \<Rightarrow> int \<Rightarrow> inventory_row list) \<Rightarrow> (int \<Rightarrow> string list) \<Rightarrow> (int \<Rightarrow> string list)
     \<Rightarrow> bucket list \<Rightarrow> real forecast list \<Rightarrow> int \<times> int \<Rightarrow> exn + real forecast list" where
  "forecast_pair now inventory_of product_names shop_names monthly forecasts pair =
     (let product_data = sort_key b_month (filter (\<lambda>b. bucket_pair b = pair) monthly)
      in forecast_series now (inventory_of (fst pair) (snd pair))
           (product_name_of product_names (fst pair)) (shop_name_of shop_names (snd pair))
           forecasts pair (map b_quantity product_data))"

text \<open>The loop over the pairs: an exception in the body ends the function.\<close>

fun forecast_pairs ::
  "('f forecast list \<Rightarrow> int \<times> int \<Rightarrow> exn + 'f forecast list) \<Rightarrow> 'f forecast list
     \<Rightarrow> (int \<times> int) list \<Rightarrow> exn + 'f forecast list" where
  "forecast_pairs body forecasts [] = Inr forecasts"
| "forecast_pairs body forecasts (pair # pairs) =
     (case body forecasts pair of
        Inl e \<Rightarrow> Inl e
      | Inr forecasts' \<Rightarrow> forecast_pairs body forecasts' pairs)"

text \<open>
  \<^verbatim>\<open>forecast_demand\<close>, on the rows the query returned. As in \<^verbatim>\<open>detect_anomalies\<close> of
  this script, the frame of an empty result has no column \<^verbatim>\<open>sold_at\<close>. The insert of
  the forecasts is not part of the model.
\<close>

definition forecast_demand ::
  "clock \<Rightarrow> (int \<Rightarrow> int \<Rightarrow> inventory_row list) \<Rightarrow> (int \<Rightarrow> string list) \<Rightarrow> (int \<Rightarrow> string list)
     \<Rightarrow> sale list \<Rightarrow> exn + real forecast list" where
  "forecast_demand now inventory_of product_names shop_names sales =
     (if sales = [] then Inl (KeyError ''sold_at'')
      else
        let monthly = monthly_sales sales
        in forecast_pairs (forecast_pair now inventory_of product_names shop_names monthly) []
             (drop_duplicates (map bucket_pair monthly)))"

section \<open>The scripts over the float64 operations of their libraries\<close>

text \<open>
  The definitions above compute over exact reals. The scripts compute in float64: the
  results of numpy, pandas and scikit-learn, and of the interpreter's arithmetic and
  comparisons on them, are rounded, and the repository fixes none of this. In this
  section every such operation is a parameter: a field of a record of operations over a
  type \<open>'f\<close> of floats. The functions are those of the scripts again, with the suffix
  \<open>_fp\<close>; what is proved of them holds for whatever the operations return.
\<close>

subsection \<open>The z-score detector\<close>

text \<open>
  \<^verbatim>\<open>np.mean(quantities)\<close>, \<^verbatim>\<open>np.std(quantities)\<close>, the test \<^verbatim>\<open>x > 0\<close> on a float,
  \<^verbatim>\<open>q - mean\<close>, the division by \<^verbatim>\<open>std\<close>, and the test \<^verbatim>\<open>abs(z) > 3\<close>.
\<close>

record 'f zscore_ops =
  zs_mean :: "int list \<Rightarrow> 'f"
  zs_std :: "int list \<Rightarrow> 'f"
  zs_positive :: "'f \<Rightarrow> bool"
  zs_sub :: "int \<Rightarrow> 'f \<Rightarrow> 'f"
  zs_div :: "'f \<Rightarrow> 'f \<Rightarrow> 'f"
  zs_abs_gt_3 :: "'f \<Rightarrow> bool"

text \<open>
  \<^verbatim>\<open>[(q - mean) / std if std > 0 else 0 for q in quantities]\<close>: an entry is a float, or
  the integer 0 of the \<^verbatim>\<open>else\<close>, which is \<open>None\<close> here.
\<close>

definition z_scores_fp :: "'f zscore_ops \<Rightarrow> int list \<Rightarrow> 'f option list" where
  "z_scores_fp ops quantities =
     (let mean = zs_mean ops quantities; std = zs_std ops quantities
      in map (\<lambda>q. if zs_positive ops std then Some (zs_div ops (zs_sub ops q mean) std)
                    else None) quantities)"

text \<open>\<^verbatim>\<open>abs(z) > 3\<close> and \<^verbatim>\<open>z > 0\<close> on an entry: both are false of the integer 0.\<close>

definition entry_abs_gt_3 :: "'f zscore_ops \<Rightarrow> 'f option \<Rightarrow> bool" where
  "entry_abs_gt_3 ops z = (case z of None \<Rightarrow> False | Some v \<Rightarrow> zs_abs_gt_3 ops v)"

definition entry_positive :: "'f zscore_ops \<Rightarrow> 'f option \<Rightarrow> bool" where
  "entry_positive ops z = (case z of None \<Rightarrow> False | Some v \<Rightarrow> zs_positive ops v)"

definition anomaly_indices_fp :: "'f zscore_ops \<Rightarrow> 'f option list \<Rightarrow> nat list" where
  "anomaly_indices_fp ops zs = filter (\<lambda>i. entry_abs_gt_3 ops (zs ! i)) [0..<length zs]"

definition zscore_entity_fp ::
  "'f zscore_ops \<Rightarrow> clock \<Rightarrow> sale list \<Rightarrow> 'f option list \<Rightarrow> anomaly list \<Rightarrow> nat \<Rightarrow> anomaly list" where
  "zscore_entity_fp ops now product_sales zs anomalies idx =
     (let row = product_sales ! idx
      in anomalies @
         [\<lparr>a_product_id = dynamic_product_id row, a_store_id = store_id row,
           a_quantity = quantity row, a_sold_at = sold_at row,
           anomaly_type = (if entry_positive ops (zs ! idx) then High else Low),
           a_created_at = now (length anomalies)\<rparr>])"

definition zscore_pair_fp ::
  "'f zscore_ops \<Rightarrow> clock \<Rightarrow> anomaly list \<Rightarrow> sale list \<Rightarrow> anomaly list" where
  "zscore_pair_fp ops now anomalies product_sales =
     (let quantities = map quantity product_sales
      in if length quantities < 3 then anomalies
         else let zs = z_scores_fp ops quantities
              in foldl (zscore_entity_fp ops now product_sales zs) anomalies
                   (anomaly_indices_fp ops zs))"


text \<open>The z-score of the quantity \<open>q\<close> in the series \<open>qs\<close>, as the operations give it.\<close>

definition z_of_fp :: "'f zscore_ops \<Rightarrow> int list \<Rightarrow> int \<Rightarrow> 'f" where
  "z_of_fp ops qs q = zs_div ops (zs_sub ops q (zs_mean ops qs)) (zs_std ops qs)"

text \<open>The operations over exact reals: with them the detector is the one defined first.\<close>

definition exact_zscore_ops :: "real zscore_ops" where
  "exact_zscore_ops =
     \<lparr>zs_mean = np_mean, zs_std = np_std, zs_positive = (\<lambda>x. x > 0),
      zs_sub = (\<lambda>q m. real_of_int q - m), zs_div = (\<lambda>a b. a / b),
      zs_abs_gt_3 = (\<lambda>z. \<bar>z\<bar> > 3)\<rparr>"

subsection \<open>The pattern analysis\<close>

text \<open>
  \<^verbatim>\<open>monthly_sales["quantity"].mean()\<close> and \<^verbatim>\<open>monthly_sales["quantity"].std()\<close> of
  pandas, the sum and the difference of two floats, and the comparisons
  \<^verbatim>\<open>quantity >= high_sales_threshold\<close> and \<^verbatim>\<open>quantity <= low_sales_threshold\<close> of an
  int64 with a float.
\<close>

record 'f pattern_ops =
  pt_mean :: "int list \<Rightarrow> 'f"
  pt_std :: "int list \<Rightarrow> 'f"
  pt_add :: "'f \<Rightarrow> 'f \<Rightarrow> 'f"
  pt_sub :: "'f \<Rightarrow> 'f \<Rightarrow> 'f"
  pt_ge :: "int \<Rightarrow> 'f \<Rightarrow> bool"
  pt_le :: "int \<Rightarrow> 'f \<Rightarrow> bool"

definition classify_row_fp ::
  "'f pattern_ops \<Rightarrow> clock \<Rightarrow> 'f \<Rightarrow> 'f \<Rightarrow> int \<times> int \<Rightarrow> display_name \<Rightarrow> display_name
     \<Rightarrow> patterns \<Rightarrow> bucket \<Rightarrow> patterns" where
  "classify_row_fp ops now high low pair product_name shop_name acc row =
     (let q = b_quantity row;
          entity = (\<lambda>sentence created. \<lparr>r_product_id = fst pair, r_store_id = snd pair,
                      r_product_name = product_name, r_shop_name = shop_name,
                      r_month = b_month row, quantity_sold = q,
                      r_recommendation = sentence, r_created_at = created\<rparr>)
      in if pt_ge ops q high then
           acc\<lparr>restock_recommendations :=
                  restock_recommendations acc @ [entity Restock_high_demand (now (readings acc))],
               high_demand_periods :=
                  high_demand_periods acc
                    @ [entity High_demand_plan_inventory (now (readings acc + 1))]\<rparr>
         else if pt_le ops q low then
           acc\<lparr>avoid_restock :=
                  avoid_restock acc @ [entity Purchase_less_frequently (now (readings acc))]\<rparr>
         else acc)"

definition classify_pair_fp ::
  "'f pattern_ops \<Rightarrow> clock \<Rightarrow> (int \<Rightarrow> string list) \<Rightarrow> (int \<Rightarrow> string list) \<Rightarrow> 'f \<Rightarrow> 'f
     \<Rightarrow> bucket list \<Rightarrow> patterns \<Rightarrow> int \<times> int \<Rightarrow> patterns" where
  "classify_pair_fp ops now product_names shop_names high low monthly acc pair =
     (let product_data = filter (\<lambda>b. bucket_pair b = pair) monthly;
          product_name = product_name_of product_names (fst pair);
          shop_name = shop_name_of shop_names (snd pair)
      in foldl (classify_row_fp ops now high low pair product_name shop_name) acc product_data)"

definition high_sales_threshold_fp :: "'f pattern_ops \<Rightarrow> bucket list \<Rightarrow> 'f" where
  "high_sales_threshold_fp ops monthly =
     pt_add ops (pt_mean ops (map b_quantity monthly)) (pt_std ops (map b_quantity monthly))"

definition low_sales_threshold_fp :: "'f pattern_ops \<Rightarrow> bucket list \<Rightarrow> 'f" where
  "low_sales_threshold_fp ops monthly =
     pt_sub ops (pt_mean ops (map b_quantity monthly)) (pt_std ops (map b_quantity monthly))"

definition classify_buckets_fp ::
  "'f pattern_ops \<Rightarrow> clock \<Rightarrow> (int \<Rightarrow> string list) \<Rightarrow> (int \<Rightarrow> string list) \<Rightarrow> bucket list
     \<Rightarrow> patterns" where
  "classify_buckets_fp ops now product_names shop_names monthly =
     foldl (classify_pair_fp ops now product_names shop_names
              (high_sales_threshold_fp ops monthly) (low_sales_threshold_fp ops monthly) monthly)
       no_patterns (drop_duplicates (map bucket_pair monthly))"

definition analyze_sales_patterns_fp ::
  "'f pattern_ops \<Rightarrow> clock \<Rightarrow> store_db \<Rightarrow> py_value \<Rightarrow> exn + patterns" where
  "analyze_sales_patterns_fp ops now db sid =
     (case select_sales db (store_filter sid) of
        Inl e \<Rightarrow> Inl e
      | Inr sales \<Rightarrow>
          if sales = [] then Inr no_patterns
          else
            let result = classify_buckets_fp ops now (select_product_name db)
                           (select_shop_name db) (monthly_sales sales)
            in if restock_recommendations result \<noteq> [] \<or> avoid_restock result \<noteq> []
                  \<or> high_demand_periods result \<noteq> []
               then (case insert_recommendations db
                            (restock_recommendations result @ avoid_restock result
                               @ high_demand_periods result) of
                       Some e \<Rightarrow> Inl e
                     | None \<Rightarrow> Inr result)
               else Inr result)"

text \<open>
  The operations over exact reals, NaN being \<open>None\<close>: with them the analysis is the one
  defined first.
\<close>

definition exact_pattern_ops :: "real option pattern_ops" where
  "exact_pattern_ops =
     \<lparr>pt_mean = series_mean, pt_std = series_std, pt_add = nan_add, pt_sub = nan_sub,
      pt_ge = ge_nan, pt_le = le_nan\<rparr>"

subsection \<open>The density-based detector\<close>

text \<open>
  \<^verbatim>\<open>product_data["quantity"].mean()\<close> of pandas and the comparison
  \<^verbatim>\<open>row["quantity"] > mean\<close> of an integer with a float.
\<close>

record 'f density_ops =
  dn_mean :: "int list \<Rightarrow> 'f"
  dn_gt :: "int \<Rightarrow> 'f \<Rightarrow> bool"

text \<open>
  The isolation forest with its seed. \<^verbatim>\<open>fit_predict\<close> draws its random numbers from a
  generator that scikit-learn builds from \<^verbatim>\<open>random_state\<close>: from the seed when one is
  given, and from the state of the process otherwise. The labels are a function of that
  state \<open>'g\<close> of the run, of the seed (\<open>None\<close>: no seed) and of the quantity column. The
  script passes the seed 42.
\<close>

type_synonym 'g seeded_forest = "'g \<Rightarrow> nat option \<Rightarrow> int list \<Rightarrow> exn + int list"

definition random_state :: "nat option" where
  "random_state = Some 42"

definition density_entity_fp ::
  "'f density_ops \<Rightarrow> clock \<Rightarrow> display_name \<Rightarrow> display_name \<Rightarrow> sale list \<Rightarrow> named_anomaly list
     \<Rightarrow> nat \<Rightarrow> named_anomaly list" where
  "density_entity_fp ops now product_name shop_name product_data anomalies idx =
     (let row = product_data ! idx
      in anomalies @
         [\<lparr>a_product_id = dynamic_product_id row, a_store_id = store_id row,
           a_quantity = quantity row, a_sold_at = sold_at row,
           anomaly_type = (if dn_gt ops (quantity row) (dn_mean ops (map quantity product_data))
                           then High else Low),
           a_created_at = now (length anomalies),
           a_product_name = product_name, a_shop_name = shop_name\<rparr>])"

definition density_pair_fp ::
  "'f density_ops \<Rightarrow> 'g \<Rightarrow> 'g seeded_forest \<Rightarrow> clock \<Rightarrow> (int \<Rightarrow> string list)
     \<Rightarrow> (int \<Rightarrow> string list) \<Rightarrow> sale list \<Rightarrow> named_anomaly list \<Rightarrow> int \<times> int
     \<Rightarrow> named_anomaly list" where
  "density_pair_fp ops g forest now product_names shop_names sales anomalies pair =
     (let product_data = filter (\<lambda>r. sale_pair r = pair) sales
      in if length product_data < 3 then anomalies
         else if length product_data > 500 then anomalies
         else (case forest g random_state (map quantity product_data) of
                 Inl e \<Rightarrow> anomalies
               | Inr labels \<Rightarrow>
                   if length labels \<noteq> length product_data then anomalies
                   else foldl (density_entity_fp ops now (product_name_of product_names (fst pair))
                                 (shop_name_of shop_names (snd pair)) product_data)
                          anomalies
                          (filter (\<lambda>i. labels ! i = - 1) [0..<length product_data])))"

definition density_anomalies_fp ::
  "'f density_ops \<Rightarrow> 'g \<Rightarrow> 'g seeded_forest \<Rightarrow> clock \<Rightarrow> (int \<Rightarrow> string list)
     \<Rightarrow> (int \<Rightarrow> string list) \<Rightarrow> sale list \<Rightarrow> named_anomaly list" where
  "density_anomalies_fp ops g forest now product_names shop_names sales =
     foldl (density_pair_fp ops g forest now product_names shop_names sales) []
       (drop_duplicates (map sale_pair sales))"

definition recommendations_detect_anomalies_fp ::
  "'f density_ops \<Rightarrow> 'g \<Rightarrow> 'g seeded_forest \<Rightarrow> clock \<Rightarrow> store_db \<Rightarrow> py_value
     \<Rightarrow> exn + named_anomaly list" where
  "recommendations_detect_anomalies_fp ops g forest now db sid =
     (case select_sales db (store_filter sid) of
        Inl e \<Rightarrow> Inl e
      | Inr sales \<Rightarrow>
          if sales = [] then Inr []
          else
            let anomalies = density_anomalies_fp ops g forest now (select_product_name db)
                              (select_shop_name db) sales
            in if anomalies \<noteq> []
               then (case insert_anomalies db anomalies of
                       Some e \<Rightarrow> Inl e
                     | None \<Rightarrow> Inr anomalies)
               else Inr anomalies)"

definition exact_density_ops :: "real density_ops" where
  "exact_density_ops = \<lparr>dn_mean = np_mean, dn_gt = (\<lambda>q m. real_of_int q > m)\<rparr>"

subsection \<open>The forecast\<close>

text \<open>
  \<open>fc_predict y\<close> is \<^verbatim>\<open>model.predict([[len(y)]])[0]\<close> of the \<^verbatim>\<open>LinearRegression\<close> fitted
  on the indices 0, 1, ... and the series \<open>y\<close>; \<open>fc_positive\<close> is the test \<^verbatim>\<open>x > 0\<close> that
  \<^verbatim>\<open>max(0, x)\<close> makes; \<open>fc_gt_int\<close> the comparison of a float with an integer;
  \<open>fc_round2\<close> is \<^verbatim>\<open>round(float(x), 2)\<close> and \<open>fc_zero\<close> the float \<^verbatim>\<open>0.0\<close>.
\<close>

record 'f forecast_ops =
  fc_predict :: "int list \<Rightarrow> 'f"
  fc_positive :: "'f \<Rightarrow> bool"
  fc_gt_int :: "'f \<Rightarrow> int \<Rightarrow> bool"
  fc_round2 :: "'f \<Rightarrow> 'f"
  fc_zero :: "'f"

text \<open>
  \<^verbatim>\<open>max(0, x)\<close> returns \<open>x\<close> when \<^verbatim>\<open>x > 0\<close> and the integer 0 otherwise, which is \<open>None\<close>
  here; the comparison with the stock and the rounding are then those of the integer 0.
\<close>

definition clamp_fp :: "'f forecast_ops \<Rightarrow> 'f \<Rightarrow> 'f option" where
  "clamp_fp ops x = (if fc_positive ops x then Some x else None)"

definition exceeds_fp :: "'f forecast_ops \<Rightarrow> 'f option \<Rightarrow> int \<Rightarrow> bool" where
  "exceeds_fp ops predicted level =
     (case predicted of None \<Rightarrow> 0 > level | Some x \<Rightarrow> fc_gt_int ops x level)"

definition reported_fp :: "'f forecast_ops \<Rightarrow> 'f option \<Rightarrow> 'f" where
  "reported_fp ops predicted =
     (case predicted of None \<Rightarrow> fc_zero ops | Some x \<Rightarrow> fc_round2 ops x)"

definition forecast_series_fp ::
  "'f forecast_ops \<Rightarrow> clock \<Rightarrow> inventory_row list \<Rightarrow> display_name \<Rightarrow> display_name
     \<Rightarrow> 'f forecast list \<Rightarrow> int \<times> int \<Rightarrow> int list \<Rightarrow> exn + 'f forecast list" where
  "forecast_series_fp ops now inventory product_name shop_name forecasts pair y =
     (if length y < 2 then Inr forecasts
      else
        let predicted = clamp_fp ops (fc_predict ops y)
        in (case current_stock_of inventory of
              Inl e \<Rightarrow> Inl e
            | Inr stock \<Rightarrow>
                Inr (forecasts @
                  [\<lparr>f_product_id = fst pair, f_store_id = snd pair,
                    predicted_demand = reported_fp ops predicted,
                    current_stock = stock,
                    f_product_name = product_name, f_shop_name = shop_name,
                    f_recommendation =
                      (if exceeds_fp ops predicted (stock + reorder_level_of inventory)
                       then Restock_recommended else No_restock_needed),
                    forecast_period_of = now (2 * length forecasts) + 30 * 86400,
                    f_created_at = now (2 * length forecasts + 1)\<rparr>])))"

definition forecast_pair_fp ::
  "'f forecast_ops \<Rightarrow> clock \<Rightarrow> (int \<Rightarrow> int \<Rightarrow> inventory_row list) \<Rightarrow> (int \<Rightarrow> string list)
     \<Rightarrow> (int \<Rightarrow> string list) \<Rightarrow> bucket list \<Rightarrow> 'f forecast list \<Rightarrow> int \<times> int
     \<Rightarrow> exn + 'f forecast list" where
  "forecast_pair_fp ops now inventory_of product_names shop_names monthly forecasts pair =
     (let product_data = sort_key b_month (filter (\<lambda>b. bucket_pair b = pair) monthly)
      in forecast_series_fp ops now (inventory_of (fst pair) (snd pair))
           (product_name_of product_names (fst pair)) (shop_name_of shop_names (snd pair))
           forecasts pair (map b_quantity product_data))"

definition forecast_demand_fp ::
  "'f forecast_ops \<Rightarrow> clock \<Rightarrow> (int \<Rightarrow> int \<Rightarrow> inventory_row list) \<Rightarrow> (int \<Rightarrow> string list)
     \<Rightarrow> (int \<Rightarrow> string list) \<Rightarrow> sale list \<Rightarrow> exn + 'f forecast list" where
  "forecast_demand_fp ops now inventory_of product_names shop_names sales =
     (if sales = [] then Inl (KeyError ''sold_at'')
      else
        let monthly = monthly_sales sales
        in forecast_pairs (forecast_pair_fp ops now inventory_of product_names shop_names monthly)
             [] (drop_duplicates (map bucket_pair monthly)))"

text \<open>
  The operations over exact reals, the regression being the least-squares line defined
  first: with them the forecast is the one defined first.
\<close>

definition exact_forecast_ops :: "real forecast_ops" where
  "exact_forecast_ops =
     \<lparr>fc_predict = (\<lambda>y. lr_predict y (real (length y))), fc_positive = (\<lambda>x. x > 0),
      fc_gt_int = (\<lambda>x level. x > real_of_int level), fc_round2 = round2, fc_zero = 0\<rparr>"

section \<open>The recommendations endpoint (recommendations.py)\<close>

text \<open>
  \<^verbatim>\<open>int(s)\<close> on the text of a request is a function of the interpreter: a parameter
  \<open>int_of_str\<close> of the model, \<open>None\<close> being \<open>ValueError\<close>, the one exception it raises on
  a string.
\<close>

type_synonym py_int = "string \<Rightarrow> int option"

text \<open>
  The response: the status with either the error message or the four lists. The calls
  the endpoint made are returned with it, in their order.
\<close>

datatype body = Error_body string | Recommendations "named_anomaly list" patterns

datatype call = Call_detect_anomalies | Call_analyze_sales_patterns

type_synonym response = "(nat \<times> body) \<times> call list"

text \<open>
  The value of \<open>store_id\<close> after the first lines of the endpoint, for the argument
  \<^verbatim>\<open>request.args.get('store_id')\<close>: \<open>Inl\<close> is the response 400. The empty string is
  falsy and is not parsed.
\<close>

definition store_id_of_request :: "py_int \<Rightarrow> string option \<Rightarrow> string + py_value" where
  "store_id_of_request int_of_str arg =
     (case arg of
        None \<Rightarrow> Inr PyNone
      | Some s \<Rightarrow>
          if s \<noteq> [] then
            (case int_of_str s of
               None \<Rightarrow> Inl ''Invalid store_id format''
             | Some n \<Rightarrow> Inr (PyInt n))
          else Inr (PyStr s))"

text \<open>
  The second function reads the clock after the first: its k-th reading is the reading
  \<open>k + length anomalies\<close> of the run.
\<close>

definition recommendations_endpoint ::
  "py_int \<Rightarrow> 'd density_ops \<Rightarrow> 'p pattern_ops \<Rightarrow> 'g \<Rightarrow> 'g seeded_forest \<Rightarrow> clock \<Rightarrow> store_db
     \<Rightarrow> string option \<Rightarrow> response" where
  "recommendations_endpoint int_of_str dops pops g forest now db arg =
     (case store_id_of_request int_of_str arg of
        Inl message \<Rightarrow> ((400, Error_body message), [])
      | Inr sid \<Rightarrow>
          (case recommendations_detect_anomalies_fp dops g forest now db sid of
             Inl e \<Rightarrow>
               ((500, Error_body (''Internal Server Error: '' @ exn_str e)),
                [Call_detect_anomalies])
           | Inr anomalies \<Rightarrow>
               (case analyze_sales_patterns_fp pops (\<lambda>k. now (k + length anomalies)) db sid of
                  Inl e \<Rightarrow>
                    ((500, Error_body (''Internal Server Error: '' @ exn_str e)),
                     [Call_detect_anomalies, Call_analyze_sales_patterns])
                | Inr sales_patterns \<Rightarrow>
                    ((200, Recommendations anomalies sales_patterns),
                     [Call_detect_anomalies, Call_analyze_sales_patterns]))))"

section \<open>Example data\<close>

text \<open>Four sales of two products in one store, three of them of product 7, over two months.\<close>

definition sales_example :: "sale list" where
  "sales_example =
    [\<lparr>dynamic_product_id = 7, store_id = 1, quantity = 4,
        sold_at = \<lparr>year = 2024, month_of_year = 3, day_of_month = 2, second_of_day = 0\<rparr>\<rparr>,
     \<lparr>dynamic_product_id = 5, store_id = 1, quantity = 2,
        sold_at = \<lparr>year = 2024, month_of_year = 3, day_of_month = 9, second_of_day = 10\<rparr>\<rparr>,
     \<lparr>dynamic_product_id = 7, store_id = 1, quantity = 6,
        sold_at = \<lparr>year = 2024, month_of_year = 3, day_of_month = 30, second_of_day = 77\<rparr>\<rparr>,
     \<lparr>dynamic_product_id = 7, store_id = 1, quantity = 1,
        sold_at = \<lparr>year = 2024, month_of_year = 4, day_of_month = 1, second_of_day = 0\<rparr>\<rparr>]"

definition example_time :: utc_time where
  "example_time = \<lparr>year = 2024, month_of_year = 1, day_of_month = 15, second_of_day = 0\<rparr>"

definition example_row :: "int \<Rightarrow> sale" where
  "example_row q = \<lparr>dynamic_product_id = 1, store_id = 1, quantity = q, sold_at = example_time\<rparr>"

definition series_5 :: "sale list" where
  "series_5 = map example_row [10, 10, 10, 10, 100]"


definition clock_zero :: clock where
  "clock_zero k = 0"


text \<open>Monthly rows for the examples, and a record store that knows no name.\<close>

definition example_bucket :: "int \<Rightarrow> int \<Rightarrow> bucket" where
  "example_bucket p q = \<lparr>b_product_id = p, b_store_id = 1, b_month = (2024, 1), b_quantity = q\<rparr>"

definition buckets_1_5_9 :: "bucket list" where
  "buckets_1_5_9 = [example_bucket 1 1, example_bucket 2 5, example_bucket 3 9]"

definition buckets_5_5 :: "bucket list" where
  "buckets_5_5 = [example_bucket 1 5, example_bucket 2 5]"

definition no_names :: "int \<Rightarrow> string list" where
  "no_names i = []"

definition example_db :: "sale list \<Rightarrow> store_db" where
  "example_db sales =
     \<lparr>select_sales = (\<lambda>f. Inr sales), select_product_name = no_names,
      select_shop_name = no_names, insert_anomalies = (\<lambda>rows. None),
      insert_recommendations = (\<lambda>rows. None)\<rparr>"

text \<open>The inventory row of the examples: 5 in stock, reorder level 0.\<close>

definition inventory_5_0 :: "inventory_row list" where
  "inventory_5_0 = [\<lparr>available_qty = Some 5, reorder_level = Some 0\<rparr>]"

text \<open>A record store whose query fails.\<close>

definition failing_db :: store_db where
  "failing_db =
     \<lparr>select_sales = (\<lambda>f. Inl (UpstreamError ''connection refused'')),
      select_product_name = no_names, select_shop_name = no_names,
      insert_anomalies = (\<lambda>rows. None), insert_recommendations = (\<lambda>rows. None)\<rparr>"

text \<open>A forest that labels every row an inlier.\<close>

definition all_inliers :: iso_forest where
  "all_inliers column = Inr (map (\<lambda>q. 1) column)"

definition no_inventory :: "int \<Rightarrow> int \<Rightarrow> inventory_row list" where
  "no_inventory p s = []"

text \<open>Two sales of one product in one store and month, each of quantity \<open>2 ^ 62\<close>.\<close>

definition sales_2_62 :: "sale list" where
  "sales_2_62 = [example_row 4611686018427387904, example_row 4611686018427387904]"


text \<open>
  The values of \<^verbatim>\<open>int\<close> on the strings of the examples: \<^verbatim>\<open>int("42")\<close> is 42, and
  \<^verbatim>\<open>int("abc")\<close> and \<^verbatim>\<open>int("")\<close> raise \<open>ValueError\<close>. No other string is parsed in an
  example.
\<close>

definition example_int :: py_int where
  "example_int s = (if s = ''42'' then Some 42 else None)"

text \<open>
  A forest for the examples. With a seed it labels a quantity above the seed minus 32 an
  outlier; without one it takes the threshold from the state of the run.
\<close>

definition example_forest :: "int seeded_forest" where
  "example_forest g seed column =
     Inr (map (\<lambda>q. if q > (case seed of None \<Rightarrow> g | Some s \<Rightarrow> int s - 32) then - 1 else 1)
            column)"



text \<open>
  Two sales of quantity 5, of two products in one store and month, and a record store that
  returns them and fails on the insert of recommendations.
\<close>

definition sales_5_5 :: "sale list" where
  "sales_5_5 =
     [\<lparr>dynamic_product_id = 1, store_id = 1, quantity = 5, sold_at = example_time\<rparr>,
      \<lparr>dynamic_product_id = 2, store_id = 1, quantity = 5, sold_at = example_time\<rparr>]"

definition failing_insert_db :: store_db where
  "failing_insert_db =
     \<lparr>select_sales = (\<lambda>f. Inr sales_5_5), select_product_name = no_names,
      select_shop_name = no_names, insert_anomalies = (\<lambda>rows. None),
      insert_recommendations = (\<lambda>rows. Some (UpstreamError ''insert failed''))\<rparr>"

section \<open>Properties of the aggregation\<close>

lemma group_add_keys:
  "map fst (group_add k q gs) =
     (if k \<in> set (map fst gs) then map fst gs else map fst gs @ [k])"
  by (induction gs) force+

lemma group_add_key_set: "fst ` set (group_add k q gs) = insert k (fst ` set gs)"
proof -
  have "set (map fst (group_add k q gs)) = insert k (set (map fst gs))"
    by (simp only: group_add_keys) auto
  then show ?thesis by simp
qed

lemma group_add_distinct:
  "distinct (map fst gs) \<Longrightarrow> distinct (map fst (group_add k q gs))"
  by (simp add: group_add_keys)

lemma wrap64_in_range: "in_int64 x \<Longrightarrow> wrap64 x = x"
  by (simp add: in_int64_def wrap64_def signed_take_bit_int_eq_self)

lemma wrap64_range: "in_int64 (wrap64 x)"
  unfolding in_int64_def wrap64_def
  by (intro conjI signed_take_bit_int_greater_eq_minus_exp signed_take_bit_int_less_exp)

lemma wrap64_add_left: "wrap64 (wrap64 a + b) = wrap64 (a + b)"
proof -
  have "signed_take_bit 63 (signed_take_bit 63 (signed_take_bit 63 a) + signed_take_bit 63 b)
      = signed_take_bit 63 (signed_take_bit 63 a + b)"
    by (rule signed_take_bit_add)
  then show ?thesis
    by (simp add: wrap64_def signed_take_bit_add)
qed

lemma total_of_absent: "k \<notin> fst ` set gs \<Longrightarrow> total_of gs k = 0"
  by (induction gs) auto

lemma total_of_group_add_other: "k' \<noteq> k \<Longrightarrow> total_of (group_add k q gs) k' = total_of gs k'"
  by (induction gs) auto

lemma total_of_group_add_same:
  "in_int64 q \<Longrightarrow> total_of (group_add k q gs) k = wrap64 (total_of gs k + q)"
  by (induction gs) (auto simp: wrap64_in_range)

lemma total_of_mem:
  "distinct (map fst gs) \<Longrightarrow> (k, t) \<in> set gs \<Longrightarrow> total_of gs k = t"
  by (induction gs) (auto simp: rev_image_eqI)

lemma accumulate_keys:
  "set (map fst (accumulate df gs0)) = set (map fst gs0) \<union> set (map sale_key df)"
proof (induction df arbitrary: gs0)
  case Nil
  then show ?case by (simp add: accumulate_def)
next
  case (Cons r df)
  have "accumulate (r # df) gs0 = accumulate df (group_add (sale_key r) (quantity r) gs0)"
    by (simp add: accumulate_def)
  then have "set (map fst (accumulate (r # df) gs0)) =
      set (map fst (group_add (sale_key r) (quantity r) gs0)) \<union> set (map sale_key df)"
    by (simp only: Cons.IH)
  also have "\<dots> = insert (sale_key r) (fst ` set gs0) \<union> sale_key ` set df"
    by (simp add: group_add_key_set)
  finally show ?case by auto
qed

lemma accumulate_distinct:
  "distinct (map fst gs0) \<Longrightarrow> distinct (map fst (accumulate df gs0))"
  unfolding accumulate_def
  by (induction df arbitrary: gs0) (auto simp: group_add_distinct)

lemma accumulate_Cons:
  "accumulate (r # df) gs0 = accumulate df (group_add (sale_key r) (quantity r) gs0)"
  by (simp add: accumulate_def)

lemma matching_total_Cons:
  "matching_total (r # df) k =
     (if sale_key r = k then quantity r + matching_total df k else matching_total df k)"
  by (simp add: matching_total_def)

lemma accumulate_total:
  assumes "\<forall>r \<in> set df. in_int64 (quantity r)" and "in_int64 (total_of gs0 k)"
  shows "total_of (accumulate df gs0) k = wrap64 (total_of gs0 k + matching_total df k)"
  using assms
proof (induction df arbitrary: gs0)
  case Nil
  then show ?case by (simp add: accumulate_def matching_total_def wrap64_in_range)
next
  case (Cons r df)
  let ?gs = "group_add (sale_key r) (quantity r) gs0"
  from Cons.prems have q: "in_int64 (quantity r)" and rest: "\<forall>r \<in> set df. in_int64 (quantity r)"
    by simp_all
  show ?case
  proof (cases "sale_key r = k")
    case True
    have t: "total_of ?gs k = wrap64 (total_of gs0 k + quantity r)"
      using q True by (simp add: total_of_group_add_same)
    then have "in_int64 (total_of ?gs k)" by (simp add: wrap64_range)
    with rest have "total_of (accumulate df ?gs) k = wrap64 (total_of ?gs k + matching_total df k)"
      by (rule Cons.IH)
    also have "\<dots> = wrap64 (total_of gs0 k + quantity r + matching_total df k)"
      by (simp only: t wrap64_add_left)
    finally show ?thesis
      using True by (simp add: accumulate_Cons matching_total_Cons add.assoc)
  next
    case False
    then have t: "total_of ?gs k = total_of gs0 k"
      by (simp add: total_of_group_add_other)
    with Cons.prems have "in_int64 (total_of ?gs k)" by simp
    with rest have "total_of (accumulate df ?gs) k = wrap64 (total_of ?gs k + matching_total df k)"
      by (rule Cons.IH)
    then show ?thesis
      using False by (simp add: accumulate_Cons matching_total_Cons t)
  qed
qed

lemma groupby_sum_accumulate: "groupby_sum df = sort_key fst (accumulate df [])"
  by (simp add: groupby_sum_def accumulate_def)

lemma groupby_sum_keys: "set (map fst (groupby_sum df)) = set (map sale_key df)"
proof -
  have "set (map fst (groupby_sum df)) = fst ` set (accumulate df [])"
    by (simp add: groupby_sum_accumulate)
  also have "\<dots> = set (map sale_key df)"
    using accumulate_keys [of df "[]"] by simp
  finally show ?thesis .
qed

lemma groupby_sum_distinct: "distinct (map fst (groupby_sum df))"
proof -
  have "distinct (map fst (accumulate df []))"
    by (rule accumulate_distinct) simp
  then show ?thesis
    by (simp add: groupby_sum_accumulate distinct_map)
qed

lemma groupby_sum_sorted: "sorted (map fst (groupby_sum df))"
  by (simp add: groupby_sum_accumulate)

lemma groupby_sum_total:
  assumes "(k, t) \<in> set (groupby_sum df)" and "\<forall>r \<in> set df. in_int64 (quantity r)"
  shows "t = wrap64 (matching_total df k)"
proof -
  from assms(1) have mem: "(k, t) \<in> set (accumulate df [])"
    by (simp add: groupby_sum_accumulate)
  have "distinct (map fst (accumulate df []))"
    by (rule accumulate_distinct) simp
  with mem have "total_of (accumulate df []) k = t"
    by (rule total_of_mem [rotated])
  moreover have "total_of (accumulate df []) k = wrap64 (total_of [] k + matching_total df k)"
    using assms(2) by (rule accumulate_total) (simp add: in_int64_def)
  ultimately show ?thesis by simp
qed

lemma bucket_key_mk_bucket: "bucket_key (mk_bucket g) = fst g"
  by (cases g) (auto simp: mk_bucket_def bucket_key_def)

lemma b_quantity_mk_bucket: "b_quantity (mk_bucket g) = snd g"
  by (cases g) (auto simp: mk_bucket_def)

lemma monthly_sales_keys: "map bucket_key (monthly_sales df) = map fst (groupby_sum df)"
  by (simp add: monthly_sales_def bucket_key_mk_bucket cong: map_cong)

lemma monthly_sales_distinct: "distinct (map bucket_key (monthly_sales df))"
  by (simp only: monthly_sales_keys groupby_sum_distinct)

lemma monthly_sales_total:
  assumes "b \<in> set (monthly_sales df)" and "\<forall>r \<in> set df. in_int64 (quantity r)"
  shows "b_quantity b = wrap64 (matching_total df (bucket_key b))"
proof -
  from assms(1) obtain g where g: "g \<in> set (groupby_sum df)" and b: "b = mk_bucket g"
    by (auto simp: monthly_sales_def)
  from g have "(fst g, snd g) \<in> set (groupby_sum df)" by simp
  then have "snd g = wrap64 (matching_total df (fst g))"
    using assms(2) by (rule groupby_sum_total)
  with b show ?thesis
    by (simp add: bucket_key_mk_bucket b_quantity_mk_bucket)
qed

lemma sale_key_eq_iff:
  "sale_key r = bucket_key b \<longleftrightarrow>
     dynamic_product_id r = b_product_id b \<and> store_id r = b_store_id b
     \<and> (year (sold_at r), month_of_year (sold_at r)) = b_month b"
  by (auto simp: sale_key_def bucket_key_def to_period_M_def)

text \<open>
  C1 (amended). When every quantity is within 64 bits, the monthly aggregation has exactly
  one bucket for each distinct (product, store, year and month of \<open>sold_at\<close>) key of the
  input and no bucket for any other key; the total of a bucket is the sum of the
  quantities of the input rows of its product, store, year and month, wrapped to a signed
  64-bit integer, and so the sum itself whenever the sum is within 64 bits.
\<close>

theorem monthly_sales_one_bucket_per_key_int64_sum:
  "(\<forall>r \<in> set df. - (2 ^ 63) \<le> quantity r \<and> quantity r < 2 ^ 63) \<longrightarrow>
     distinct (map (\<lambda>b. (b_product_id b, b_store_id b, b_month b)) (monthly_sales df))
     \<and> set (map (\<lambda>b. (b_product_id b, b_store_id b, b_month b)) (monthly_sales df))
         = set (map (\<lambda>r. (dynamic_product_id r, store_id r,
                            year (sold_at r), month_of_year (sold_at r))) df)
     \<and> (\<forall>b \<in> set (monthly_sales df).
          b_quantity b =
            signed_take_bit 63 (sum_list (map quantity
              (filter (\<lambda>r. dynamic_product_id r = b_product_id b \<and> store_id r = b_store_id b
                  \<and> (year (sold_at r), month_of_year (sold_at r)) = b_month b) df)))
          \<and> (- (2 ^ 63) \<le> sum_list (map quantity
                 (filter (\<lambda>r. dynamic_product_id r = b_product_id b \<and> store_id r = b_store_id b
                    \<and> (year (sold_at r), month_of_year (sold_at r)) = b_month b) df))
               \<and> sum_list (map quantity
                 (filter (\<lambda>r. dynamic_product_id r = b_product_id b \<and> store_id r = b_store_id b
                    \<and> (year (sold_at r), month_of_year (sold_at r)) = b_month b) df)) < 2 ^ 63
              \<longrightarrow>
              b_quantity b = sum_list (map quantity
                (filter (\<lambda>r. dynamic_product_id r = b_product_id b \<and> store_id r = b_store_id b
                    \<and> (year (sold_at r), month_of_year (sold_at r)) = b_month b) df))))"
proof (intro impI conjI ballI)
  have keys: "(\<lambda>b. (b_product_id b, b_store_id b, b_month b)) = bucket_key"
    by (simp add: bucket_key_def fun_eq_iff)
  show "distinct (map (\<lambda>b. (b_product_id b, b_store_id b, b_month b)) (monthly_sales df))"
    by (simp only: keys monthly_sales_distinct)
  have "(\<lambda>r. (dynamic_product_id r, store_id r, year (sold_at r), month_of_year (sold_at r)))
      = sale_key"
    by (simp add: sale_key_def to_period_M_def fun_eq_iff)
  then show "set (map (\<lambda>b. (b_product_id b, b_store_id b, b_month b)) (monthly_sales df))
         = set (map (\<lambda>r. (dynamic_product_id r, store_id r,
                            year (sold_at r), month_of_year (sold_at r))) df)"
    by (simp only: keys monthly_sales_keys groupby_sum_keys)
next
  fix b
  assume range: "\<forall>r \<in> set df. - (2 ^ 63) \<le> quantity r \<and> quantity r < 2 ^ 63"
    and b: "b \<in> set (monthly_sales df)"
  let ?total = "sum_list (map quantity
      (filter (\<lambda>r. dynamic_product_id r = b_product_id b \<and> store_id r = b_store_id b
          \<and> (year (sold_at r), month_of_year (sold_at r)) = b_month b) df))"
  have total: "matching_total df (bucket_key b) = ?total"
    by (simp add: matching_total_def sale_key_eq_iff)
  from range have "\<forall>r \<in> set df. in_int64 (quantity r)"
    by (simp add: in_int64_def)
  with b have "b_quantity b = wrap64 (matching_total df (bucket_key b))"
    by (rule monthly_sales_total)
  then show wrapped: "b_quantity b = signed_take_bit 63 ?total"
    by (simp only: total wrap64_def)
  assume "- (2 ^ 63) \<le> ?total \<and> ?total < 2 ^ 63"
  then have "signed_take_bit 63 ?total = ?total"
    by (simp add: signed_take_bit_int_eq_self)
  with wrapped show "b_quantity b = ?total" by simp
qed

lemma monthly_sales_example:
  "monthly_sales sales_example =
   [\<lparr>b_product_id = 5, b_store_id = 1, b_month = (2024, 3), b_quantity = 2\<rparr>,
    \<lparr>b_product_id = 7, b_store_id = 1, b_month = (2024, 3), b_quantity = 10\<rparr>,
    \<lparr>b_product_id = 7, b_store_id = 1, b_month = (2024, 4), b_quantity = 1\<rparr>]"
  by (simp add: monthly_sales_def groupby_sum_def sales_example_def sale_key_def
      to_period_M_def mk_bucket_def wrap64_def)

lemma quantities_sales_example:
  "\<forall>r \<in> set sales_example. - (2 ^ 63) \<le> quantity r \<and> quantity r < 2 ^ 63"
  by (simp add: sales_example_def)

theorem monthly_sales_one_bucket_per_key_int64_sum_witness:
  "list_all (\<lambda>r. - (2 ^ 63) \<le> quantity r \<and> quantity r < 2 ^ 63) sales_example
   \<and> \<lparr>b_product_id = 7, b_store_id = 1, b_month = (2024, 3), b_quantity = 10\<rparr>
      \<in> set (monthly_sales sales_example)
   \<and> sum_list (map quantity
        (filter (\<lambda>r. dynamic_product_id r = 7 \<and> store_id r = 1
            \<and> (year (sold_at r), month_of_year (sold_at r)) = (2024, 3)) sales_example)) = 10"
proof -
  let ?b = "\<lparr>b_product_id = 7, b_store_id = 1, b_month = (2024, 3), b_quantity = 10\<rparr>"
  let ?T = "\<lambda>b. sum_list (map quantity
      (filter (\<lambda>r. dynamic_product_id r = b_product_id b \<and> store_id r = b_store_id b
          \<and> (year (sold_at r), month_of_year (sold_at r)) = b_month b) sales_example))"
  have mem: "?b \<in> set (monthly_sales sales_example)"
    by (simp add: monthly_sales_example)
  have small: "- (2 ^ 63) \<le> ?T ?b \<and> ?T ?b < 2 ^ 63"
    by (simp add: sales_example_def)
  from monthly_sales_one_bucket_per_key_int64_sum [of sales_example] quantities_sales_example
  have "\<forall>b \<in> set (monthly_sales sales_example).
      - (2 ^ 63) \<le> ?T b \<and> ?T b < 2 ^ 63 \<longrightarrow> b_quantity b = ?T b"
    by blast
  then have "- (2 ^ 63) \<le> ?T ?b \<and> ?T ?b < 2 ^ 63 \<longrightarrow> b_quantity ?b = ?T ?b"
    using mem by (rule bspec)
  with small have "b_quantity ?b = ?T ?b" by (rule rev_mp)
  then have "?T ?b = 10" by simp
  then have "sum_list (map quantity
        (filter (\<lambda>r. dynamic_product_id r = 7 \<and> store_id r = 1
            \<and> (year (sold_at r), month_of_year (sold_at r)) = (2024, 3)) sales_example)) = 10"
    by simp
  moreover have "list_all (\<lambda>r. - (2 ^ 63) \<le> quantity r \<and> quantity r < 2 ^ 63) sales_example"
    using quantities_sales_example by (simp only: list_all_iff)
  ultimately show ?thesis using mem by (intro conjI)
qed

text \<open>
  Two sales of \<open>2 ^ 62\<close> in one bucket: the bucket total is \<open>- (2 ^ 63)\<close> and the sum of the
  quantities is \<open>2 ^ 63\<close>.
\<close>

theorem monthly_sales_wraps_counterexample:
  "monthly_sales sales_2_62 =
     [\<lparr>b_product_id = 1, b_store_id = 1, b_month = (2024, 1),
       b_quantity = - 9223372036854775808\<rparr>]
   \<and> sum_list (map quantity sales_2_62) = 9223372036854775808"
  by (simp add: monthly_sales_def groupby_sum_def sales_2_62_def example_row_def
      example_time_def sale_key_def to_period_M_def mk_bucket_def wrap64_def)

section \<open>Properties of the z-score detector\<close>

lemma np_mean_spec_mu: "np_mean qs = spec_mu qs"
  by (simp add: np_mean_def spec_mu_def sum_list_of_int)

lemma np_std_spec_sigma: "np_std qs = spec_sigma qs"
  by (simp add: np_std_def sum_sq_dev_def spec_sigma_def np_mean_spec_mu)

lemma spec_sigma_nonneg: "spec_sigma qs \<ge> 0"
proof -
  have "0 \<le> (\<Sum>q\<leftarrow>qs. (real_of_int q - spec_mu qs)\<^sup>2)"
    by (rule sum_list_nonneg) auto
  then show ?thesis by (simp add: spec_sigma_def)
qed

lemma z_scores_spec_z: "z_scores qs = map (spec_z qs) qs"
proof -
  have "0 < spec_sigma qs \<longleftrightarrow> spec_sigma qs \<noteq> 0"
    using spec_sigma_nonneg [of qs] by linarith
  then show ?thesis
    by (simp add: z_scores_def spec_z_def np_mean_spec_mu np_std_spec_sigma Let_def)
qed

lemma foldl_zscore_entity:
  "map flagged_point (foldl (zscore_entity now rows zs) acc idxs) =
     map flagged_point acc @ map (\<lambda>i. point_of (rows ! i) (zs ! i)) idxs"
  by (induction idxs arbitrary: acc)
     (simp_all add: zscore_entity_def flagged_point_def point_of_def Let_def)

lemma flagged_by_index:
  assumes "length zs = length rows"
  shows "map (\<lambda>i. point_of (rows ! i) (zs ! i)) (anomaly_indices zs) =
         map (\<lambda>(r, z). point_of r z) (filter (\<lambda>(r, z). \<bar>z\<bar> > 3) (zip rows zs))"
proof -
  have "zip rows zs = map (\<lambda>i. (rows ! i, zs ! i)) [0..<length zs]"
    using assms by (intro nth_equalityI) auto
  then show ?thesis
    by (simp add: anomaly_indices_def filter_map comp_def)
qed

lemma zscore_pair_points:
  "map flagged_point (zscore_pair now acc rows) =
     map flagged_point acc @
     map (\<lambda>r. point_of r (spec_z (map quantity rows) (quantity r)))
       (filter (\<lambda>r. length rows \<ge> 3 \<and> \<bar>spec_z (map quantity rows) (quantity r)\<bar> > 3) rows)"
proof (cases "length rows < 3")
  case True
  then show ?thesis by (simp add: zscore_pair_def)
next
  case False
  let ?qs = "map quantity rows"
  have zip: "zip rows (z_scores ?qs) = map (\<lambda>r. (r, spec_z ?qs (quantity r))) rows"
    by (simp add: z_scores_spec_z zip_map2 zip_same_conv_map)
  have "map flagged_point (zscore_pair now acc rows) =
      map flagged_point acc @
      map (\<lambda>i. point_of (rows ! i) (z_scores ?qs ! i)) (anomaly_indices (z_scores ?qs))"
    using False by (simp add: zscore_pair_def Let_def foldl_zscore_entity)
  also have "map (\<lambda>i. point_of (rows ! i) (z_scores ?qs ! i)) (anomaly_indices (z_scores ?qs)) =
      map (\<lambda>(r, z). point_of r z) (filter (\<lambda>(r, z). \<bar>z\<bar> > 3) (zip rows (z_scores ?qs)))"
    by (rule flagged_by_index) (simp add: z_scores_spec_z)
  also have "\<dots> = map (\<lambda>r. point_of r (spec_z ?qs (quantity r)))
       (filter (\<lambda>r. \<bar>spec_z ?qs (quantity r)\<bar> > 3) rows)"
    by (simp add: zip filter_map comp_def)
  finally show ?thesis using False by simp
qed

lemma zscore_pair_none_flagged:
  assumes "\<forall>q \<in> set (map quantity rows). \<bar>spec_z (map quantity rows) q\<bar> \<le> 3"
  shows "zscore_pair now acc rows = acc"
proof -
  have "anomaly_indices (z_scores (map quantity rows)) = []"
  proof -
    have "\<not> 3 < \<bar>spec_z (map quantity rows) (quantity (rows ! i))\<bar>" if "i < length rows" for i
    proof -
      from that have "quantity (rows ! i) \<in> set (map quantity rows)" by simp
      with assms show ?thesis by fastforce
    qed
    then show ?thesis
      by (simp add: anomaly_indices_def z_scores_spec_z filter_empty_conv)
  qed
  then show ?thesis by (simp add: zscore_pair_def Let_def)
qed

lemma spec_mu_5: "spec_mu [10, 10, 10, 10, 100] = 28"
  by (simp add: spec_mu_def)

lemma spec_sigma_5: "spec_sigma [10, 10, 10, 10, 100] = 36"
proof -
  have "spec_sigma [10, 10, 10, 10, 100] = sqrt (36\<^sup>2)"
    by (simp add: spec_sigma_def spec_mu_5)
  also have "\<dots> = 36" by (simp only: real_sqrt_abs)
  finally show ?thesis .
qed

lemma spec_z_5_100: "spec_z [10, 10, 10, 10, 100] 100 = 2"
  by (simp add: spec_z_def spec_sigma_5 spec_mu_5)

lemma spec_z_5_10: "spec_z [10, 10, 10, 10, 100] 10 = - 1 / 2"
  by (simp add: spec_z_def spec_sigma_5 spec_mu_5)

lemma zscore_pair_10_10_10_10_100:
  assumes "map quantity rows = [10, 10, 10, 10, 100]"
  shows "zscore_pair now acc rows = acc"
  by (rule zscore_pair_none_flagged) (simp add: assms spec_z_5_100 spec_z_5_10)

text \<open>
  C6 (amended). For a pair whose raw quantities are [10, 10, 10, 10, 100] the mean is 28 and
  the population standard deviation is 36, so the z-score of the point 100 is exactly 2,
  which does not exceed 3: the z-score detector flags no point of this series.
\<close>

theorem zscore_series_10_10_10_10_100_no_anomaly:
  "map quantity product_sales = [10, 10, 10, 10, 100] \<longrightarrow>
     spec_z (map quantity product_sales) 100 = 2
     \<and> zscore_pair now anomalies product_sales = anomalies"
  by (auto simp: spec_z_5_100 zscore_pair_10_10_10_10_100)

lemma quantities_series_5: "map quantity series_5 = [10, 10, 10, 10, 100]"
  by (simp add: series_5_def example_row_def)

theorem zscore_series_10_10_10_10_100_no_anomaly_witness:
  "map quantity series_5 = [10, 10, 10, 10, 100]
   \<and> spec_z (map quantity series_5) 100 = 2
   \<and> zscore_pair clock_zero [] series_5 = []"
  using zscore_series_10_10_10_10_100_no_anomaly [of series_5 clock_zero "[]"]
  by (simp add: quantities_series_5)

text \<open>
  On the series [10, 10, 10, 10, 100] the detector does not flag exactly one anomaly.
\<close>

theorem zscore_series_10_10_10_10_100_counterexample:
  "length (zscore_pair clock_zero [] series_5) \<noteq> 1"
  by (simp add: zscore_pair_10_10_10_10_100 [OF quantities_series_5])

section \<open>Properties of the z-score detector over float64 operations\<close>

lemma foldl_zscore_entity_fp:
  "map flagged_point (foldl (zscore_entity_fp ops now rows zs) acc idxs) =
     map flagged_point acc @
     map (\<lambda>i. (dynamic_product_id (rows ! i), store_id (rows ! i), quantity (rows ! i),
               sold_at (rows ! i), if entry_positive ops (zs ! i) then High else Low)) idxs"
  by (induction idxs arbitrary: acc)
     (simp_all add: zscore_entity_fp_def flagged_point_def Let_def)

lemma flagged_by_index_fp:
  assumes "length zs = length rows"
  shows "map (\<lambda>i. f (rows ! i) (zs ! i)) (filter (\<lambda>i. P (zs ! i)) [0..<length zs]) =
         map (\<lambda>(r, z). f r z) (filter (\<lambda>(r, z). P z) (zip rows zs))"
proof -
  have "zip rows zs = map (\<lambda>i. (rows ! i, zs ! i)) [0..<length zs]"
    using assms by (intro nth_equalityI) auto
  then show ?thesis
    by (simp add: filter_map comp_def)
qed

lemma z_scores_fp_entries:
  "z_scores_fp ops qs =
     map (\<lambda>q. if zs_positive ops (zs_std ops qs) then Some (z_of_fp ops qs q) else None) qs"
  by (simp add: z_scores_fp_def z_of_fp_def Let_def)

lemma zscore_pair_fp_points:
  "map flagged_point (zscore_pair_fp ops now acc rows) =
     map flagged_point acc @
     map (\<lambda>r. (dynamic_product_id r, store_id r, quantity r, sold_at r,
               if zs_positive ops (zs_std ops (map quantity rows))
                  \<and> zs_positive ops (z_of_fp ops (map quantity rows) (quantity r))
               then High else Low))
       (filter (\<lambda>r. 3 \<le> length rows
                  \<and> zs_positive ops (zs_std ops (map quantity rows))
                  \<and> zs_abs_gt_3 ops (z_of_fp ops (map quantity rows) (quantity r))) rows)"
proof (cases "length rows < 3")
  case True
  then show ?thesis by (simp add: zscore_pair_fp_def)
next
  case False
  let ?qs = "map quantity rows"
  let ?zs = "z_scores_fp ops ?qs"
  let ?entry = "\<lambda>r. if zs_positive ops (zs_std ops ?qs) then Some (z_of_fp ops ?qs (quantity r)) else None"
  let ?f = "\<lambda>r z. (dynamic_product_id r, store_id r, quantity r, sold_at r,
               if entry_positive ops z then High else Low)"
  have zip: "zip rows ?zs = map (\<lambda>r. (r, ?entry r)) rows"
    by (simp add: z_scores_fp_entries zip_map2 zip_same_conv_map)
  have "map flagged_point (zscore_pair_fp ops now acc rows) =
      map flagged_point acc @
      map (\<lambda>i. ?f (rows ! i) (?zs ! i)) (filter (\<lambda>i. entry_abs_gt_3 ops (?zs ! i)) [0..<length ?zs])"
    using False
    by (simp add: zscore_pair_fp_def Let_def foldl_zscore_entity_fp anomaly_indices_fp_def)
  also have "map (\<lambda>i. ?f (rows ! i) (?zs ! i)) (filter (\<lambda>i. entry_abs_gt_3 ops (?zs ! i)) [0..<length ?zs])
      = map (\<lambda>(r, z). ?f r z) (filter (\<lambda>(r, z). entry_abs_gt_3 ops z) (zip rows ?zs))"
    by (rule flagged_by_index_fp) (simp add: z_scores_fp_entries)
  also have "\<dots> = map (\<lambda>r. ?f r (?entry r)) (filter (\<lambda>r. entry_abs_gt_3 ops (?entry r)) rows)"
    by (simp add: zip filter_map comp_def)
  also have "\<dots> = map (\<lambda>r. (dynamic_product_id r, store_id r, quantity r, sold_at r,
               if zs_positive ops (zs_std ops ?qs)
                  \<and> zs_positive ops (z_of_fp ops ?qs (quantity r))
               then High else Low))
       (filter (\<lambda>r. zs_positive ops (zs_std ops ?qs)
                  \<and> zs_abs_gt_3 ops (z_of_fp ops ?qs (quantity r))) rows)"
    by (cases "zs_positive ops (zs_std ops ?qs)")
       (simp_all add: entry_abs_gt_3_def entry_positive_def)
  finally show ?thesis using False by simp
qed

lemma exact_ops_simps:
  "zs_mean exact_zscore_ops = np_mean" "zs_std exact_zscore_ops = np_std"
  "zs_positive exact_zscore_ops x = (x > 0)"
  "zs_sub exact_zscore_ops q m = real_of_int q - m"
  "zs_div exact_zscore_ops a b = a / b"
  "zs_abs_gt_3 exact_zscore_ops z = (\<bar>z\<bar> > 3)"
  by (simp_all add: exact_zscore_ops_def)

lemma z_of_fp_exact:
  "0 < spec_sigma qs \<Longrightarrow> z_of_fp exact_zscore_ops qs q = spec_z qs q"
  by (simp add: z_of_fp_def exact_ops_simps np_mean_spec_mu np_std_spec_sigma spec_z_def)

lemma zscore_pair_fp_exact_points:
  "map flagged_point (zscore_pair_fp exact_zscore_ops now acc rows)
     = map flagged_point (zscore_pair now acc rows)"
proof -
  let ?qs = "map quantity rows"
  have z0: "spec_z ?qs q = 0" if "\<not> 0 < spec_sigma ?qs" for q
    using that spec_sigma_nonneg [of ?qs] by (simp add: spec_z_def)
  show ?thesis
  proof (cases "0 < spec_sigma ?qs")
    case True
    then show ?thesis
      by (simp add: zscore_pair_fp_points zscore_pair_points point_of_def z_of_fp_exact
          exact_ops_simps np_std_spec_sigma)
  next
    case False
    then show ?thesis
      by (simp add: zscore_pair_fp_points zscore_pair_points point_of_def z0
          exact_ops_simps np_std_spec_sigma)
  qed
qed





section \<open>Properties of the pattern analysis\<close>

lemma drop_duplicates_set: "set (drop_duplicates xs) = set xs"
  by (induction xs rule: drop_duplicates.induct) auto

lemma drop_duplicates_distinct: "distinct (drop_duplicates xs)"
  by (induction xs rule: drop_duplicates.induct) (auto simp: drop_duplicates_set)

lemma sum_list_partition_by:
  assumes "distinct ps" and "f ` set xs \<subseteq> set ps"
  shows "(\<Sum>p\<leftarrow>ps. length (filter (\<lambda>x. f x = p \<and> P x) xs)) = length (filter P xs)"
  using assms(2)
proof (induction xs)
  case Nil
  then show ?case by simp
next
  case (Cons x xs)
  have one: "(\<Sum>p\<leftarrow>ps. if f x = p then 1 else 0) = (1::nat)"
  proof -
    from Cons.prems have "f x \<in> set ps" by simp
    with assms(1) show ?thesis
      by (simp add: sum_list_distinct_conv_sum_set sum.delta')
  qed
  have "(\<Sum>p\<leftarrow>ps. length (filter (\<lambda>y. f y = p \<and> P y) (x # xs))) =
        (\<Sum>p\<leftarrow>ps. (if f x = p \<and> P x then 1 else 0) + length (filter (\<lambda>y. f y = p \<and> P y) xs))"
    by (intro arg_cong [where f = sum_list] map_cong) auto
  also have "\<dots> = (\<Sum>p\<leftarrow>ps. if f x = p \<and> P x then 1 else 0)
                  + (\<Sum>p\<leftarrow>ps. length (filter (\<lambda>y. f y = p \<and> P y) xs))"
    by (simp add: sum_list_addf)
  also have "(\<Sum>p\<leftarrow>ps. length (filter (\<lambda>y. f y = p \<and> P y) xs)) = length (filter P xs)"
    using Cons by simp
  also have "(\<Sum>p\<leftarrow>ps. if f x = p \<and> P x then 1 else 0) = (if P x then 1 else (0::nat))"
    using one by (cases "P x") simp_all
  finally show ?case by simp
qed

lemma filter_key_distinct:
  assumes "distinct (map f xs)" and "x \<in> set xs"
  shows "filter (\<lambda>y. f y = f x) xs = [x]"
  using assms
proof (induction xs)
  case Nil
  then show ?case by simp
next
  case (Cons a xs)
  show ?case
  proof (cases "a = x")
    case True
    with Cons.prems have "f x \<notin> f ` set xs" by simp
    then have "\<forall>y \<in> set xs. f y \<noteq> f x" by (metis imageI)
    then have "filter (\<lambda>y. f y = f x) xs = []" by (simp add: filter_empty_conv)
    with True show ?thesis by simp
  next
    case False
    with Cons.prems have "x \<in> set xs" by simp
    moreover from Cons.prems this have "f a \<noteq> f x" by force
    ultimately show ?thesis using Cons by simp
  qed
qed

lemma classify_row_restock:
  "map rec_core (restock_recommendations (classify_row now high low pair pn sn acc row)) =
     map rec_core (restock_recommendations acc) @
     (if ge_nan (b_quantity row) high
      then [((fst pair, snd pair, b_month row), b_quantity row, Restock_high_demand)] else [])"
  by (simp add: classify_row_def Let_def rec_core_def rec_key_def)


lemma classify_row_avoid:
  "map rec_core (avoid_restock (classify_row now high low pair pn sn acc row)) =
     map rec_core (avoid_restock acc) @
     (if \<not> ge_nan (b_quantity row) high \<and> le_nan (b_quantity row) low
      then [((fst pair, snd pair, b_month row), b_quantity row, Purchase_less_frequently)] else [])"
  by (simp add: classify_row_def Let_def rec_core_def rec_key_def)

lemma foldl_emit:
  assumes "\<And>acc row. g (step acc row) = g acc @ (if P row then [h row] else [])"
  shows "g (foldl step acc rows) = g acc @ map h (filter P rows)"
  by (induction rows arbitrary: acc) (simp_all add: assms)

lemma classify_pair_emit:
  assumes "\<And>acc row. map rec_core (sel (classify_row now high low pair
              (product_name_of pns (fst pair)) (shop_name_of sns (snd pair)) acc row)) =
            map rec_core (sel acc) @
            (if P row then [((fst pair, snd pair, b_month row), b_quantity row, s)] else [])"
  shows "map rec_core (sel (classify_pair now pns sns high low monthly acc pair)) =
     map rec_core (sel acc) @
     map (\<lambda>b. (bucket_key b, b_quantity b, s))
       (filter P (filter (\<lambda>b. bucket_pair b = pair) monthly))"
proof -
  let ?rows = "filter (\<lambda>b. bucket_pair b = pair) monthly"
  have "map rec_core (sel (classify_pair now pns sns high low monthly acc pair)) =
      map rec_core (sel acc) @
      map (\<lambda>row. ((fst pair, snd pair, b_month row), b_quantity row, s)) (filter P ?rows)"
    unfolding classify_pair_def Let_def
    by (rule foldl_emit [where g = "\<lambda>a. map rec_core (sel a)"]) (rule assms)
  also have "map (\<lambda>row. ((fst pair, snd pair, b_month row), b_quantity row, s)) (filter P ?rows) =
      map (\<lambda>b. (bucket_key b, b_quantity b, s)) (filter P ?rows)"
    by (rule map_cong) (auto simp: bucket_key_def bucket_pair_def)
  finally show ?thesis .
qed

lemma foldl_pairs_emit:
  assumes "\<And>acc pair. g (step acc pair) = g acc @ map h (filter P (rows_of pair))"
  shows "g (foldl step acc pairs) = g acc @ map h (filter P (concat (map rows_of pairs)))"
  by (induction pairs arbitrary: acc) (simp_all add: assms)

lemma classify_buckets_restock:
  "map rec_core (restock_recommendations (classify_buckets now pns sns monthly)) =
     map (\<lambda>b. (bucket_key b, b_quantity b, Restock_high_demand))
       (filter (\<lambda>b. ge_nan (b_quantity b) (high_sales_threshold monthly)) (visit_order monthly))"
proof -
  have "map rec_core (restock_recommendations (classify_buckets now pns sns monthly)) =
     map rec_core (restock_recommendations no_patterns) @
     map (\<lambda>b. (bucket_key b, b_quantity b, Restock_high_demand))
       (filter (\<lambda>b. ge_nan (b_quantity b) (high_sales_threshold monthly)) (visit_order monthly))"
    unfolding classify_buckets_def visit_order_def
    by (rule foldl_pairs_emit [where g = "\<lambda>a. map rec_core (restock_recommendations a)"])
       (rule classify_pair_emit, rule classify_row_restock)
  then show ?thesis by (simp add: no_patterns_def)
qed


lemma classify_buckets_avoid:
  "map rec_core (avoid_restock (classify_buckets now pns sns monthly)) =
     map (\<lambda>b. (bucket_key b, b_quantity b, Purchase_less_frequently))
       (filter (\<lambda>b. \<not> ge_nan (b_quantity b) (high_sales_threshold monthly)
                    \<and> le_nan (b_quantity b) (low_sales_threshold monthly)) (visit_order monthly))"
proof -
  have "map rec_core (avoid_restock (classify_buckets now pns sns monthly)) =
     map rec_core (avoid_restock no_patterns) @
     map (\<lambda>b. (bucket_key b, b_quantity b, Purchase_less_frequently))
       (filter (\<lambda>b. \<not> ge_nan (b_quantity b) (high_sales_threshold monthly)
                    \<and> le_nan (b_quantity b) (low_sales_threshold monthly)) (visit_order monthly))"
    unfolding classify_buckets_def visit_order_def
    by (rule foldl_pairs_emit [where g = "\<lambda>a. map rec_core (avoid_restock a)"])
       (rule classify_pair_emit, rule classify_row_avoid)
  then show ?thesis by (simp add: no_patterns_def)
qed

lemma visit_order_set: "set (visit_order monthly) = set monthly"
  by (auto simp: visit_order_def drop_duplicates_set)

lemma visit_order_count:
  "length (filter Q (visit_order monthly)) = length (filter Q monthly)"
proof -
  let ?ps = "drop_duplicates (map bucket_pair monthly)"
  have "length (filter Q (visit_order monthly)) =
      (\<Sum>p\<leftarrow>?ps. length (filter (\<lambda>b. bucket_pair b = p \<and> Q b) monthly))"
    by (simp add: visit_order_def filter_concat length_concat comp_def conj_commute)
  also have "\<dots> = length (filter Q monthly)"
    by (rule sum_list_partition_by) (simp_all add: drop_duplicates_distinct drop_duplicates_set)
  finally show ?thesis .
qed

lemma visit_order_bucket:
  assumes "distinct (map bucket_key monthly)" and "b \<in> set monthly"
  shows "filter (\<lambda>x. bucket_key x = bucket_key b) (visit_order monthly) = [b]"
proof -
  let ?xs = "filter (\<lambda>x. bucket_key x = bucket_key b) (visit_order monthly)"
  have "length ?xs = length (filter (\<lambda>x. bucket_key x = bucket_key b) monthly)"
    by (rule visit_order_count)
  also have "\<dots> = 1"
    using filter_key_distinct [OF assms] by simp
  finally have "length ?xs = 1" .
  then obtain x where x: "?xs = [x]"
    by (cases ?xs) auto
  from assms(2) have "b \<in> set ?xs" by (simp add: visit_order_set)
  with x show ?thesis by simp
qed

lemma emitted_core:
  "map rec_core (emitted es k) = filter (\<lambda>c. fst c = k) (map rec_core es)"
  by (simp add: emitted_def filter_map comp_def rec_core_def)

lemma emitted_of_bucket:
  assumes "map rec_core es =
      map (\<lambda>b. (bucket_key b, b_quantity b, s)) (filter P (visit_order monthly))"
    and "distinct (map bucket_key monthly)" and "b \<in> set monthly"
  shows "map rec_core (emitted es (bucket_key b)) =
      (if P b then [(bucket_key b, b_quantity b, s)] else [])"
proof -
  have "map rec_core (emitted es (bucket_key b)) =
      map (\<lambda>b. (bucket_key b, b_quantity b, s))
        (filter P (filter (\<lambda>x. bucket_key x = bucket_key b) (visit_order monthly)))"
    by (simp add: emitted_core assms(1) filter_map comp_def conj_commute)
  then show ?thesis
    by (simp add: visit_order_bucket [OF assms(2,3)])
qed

lemma thresholds_spec:
  assumes "2 \<le> length monthly"
  shows "high_sales_threshold monthly =
           Some (spec_mu (map b_quantity monthly) + spec_sample_sigma (map b_quantity monthly))"
    and "low_sales_threshold monthly =
           Some (spec_mu (map b_quantity monthly) - spec_sample_sigma (map b_quantity monthly))"
proof -
  from assms have ne: "monthly \<noteq> []" by auto
  from assms have "real (length monthly - 1) = real (length monthly) - 1"
    by (simp add: of_nat_diff)
  with assms ne have std: "series_std (map b_quantity monthly) =
      Some (spec_sample_sigma (map b_quantity monthly))"
    by (simp add: series_std_def spec_sample_sigma_def sum_sq_dev_def np_mean_spec_mu)
  from ne have mean: "mean_sales monthly = Some (spec_mu (map b_quantity monthly))"
    by (simp add: mean_sales_def series_mean_def np_mean_spec_mu)
  show "high_sales_threshold monthly =
           Some (spec_mu (map b_quantity monthly) + spec_sample_sigma (map b_quantity monthly))"
    by (simp add: high_sales_threshold_def std mean nan_add_def)
  show "low_sales_threshold monthly =
           Some (spec_mu (map b_quantity monthly) - spec_sample_sigma (map b_quantity monthly))"
    by (simp add: low_sales_threshold_def std mean nan_sub_def)
qed



lemma thresholds_1_5_9:
  "high_sales_threshold buckets_1_5_9 = Some 9" "low_sales_threshold buckets_1_5_9 = Some 1"
proof -
  have q: "map b_quantity buckets_1_5_9 = [1, 5, 9]"
    by (simp add: buckets_1_5_9_def example_bucket_def)
  have mu: "spec_mu [1, 5, 9] = 5" by (simp add: spec_mu_def)
  have "spec_sample_sigma [1, 5, 9] = sqrt (4\<^sup>2)"
    by (simp add: spec_sample_sigma_def mu)
  also have "\<dots> = 4" by (simp only: real_sqrt_abs)
  finally have sigma: "spec_sample_sigma [1, 5, 9] = 4" .
  have len: "2 \<le> length buckets_1_5_9" by (simp add: buckets_1_5_9_def)
  show "high_sales_threshold buckets_1_5_9 = Some 9"
    by (simp add: thresholds_spec(1) [OF len] q mu sigma)
  show "low_sales_threshold buckets_1_5_9 = Some 1"
    by (simp add: thresholds_spec(2) [OF len] q mu sigma)
qed

lemma thresholds_5_5:
  "high_sales_threshold buckets_5_5 = Some 5" "low_sales_threshold buckets_5_5 = Some 5"
proof -
  have q: "map b_quantity buckets_5_5 = [5, 5]"
    by (simp add: buckets_5_5_def example_bucket_def)
  have mu: "spec_mu [5, 5] = 5" by (simp add: spec_mu_def)
  have sigma: "spec_sample_sigma [5, 5] = 0"
    by (simp add: spec_sample_sigma_def mu)
  have len: "2 \<le> length buckets_5_5" by (simp add: buckets_5_5_def)
  show "high_sales_threshold buckets_5_5 = Some 5"
    by (simp add: thresholds_spec(1) [OF len] q mu sigma)
  show "low_sales_threshold buckets_5_5 = Some 5"
    by (simp add: thresholds_spec(2) [OF len] q mu sigma)
qed

text \<open>
  Two buckets of total 5: the standard deviation is 0 and both thresholds are 5. Each
  bucket is at most the low threshold, and no Avoid-Restock recommendation is emitted.
\<close>

theorem classify_buckets_low_counterexample:
  "example_bucket 1 5 \<in> set buckets_5_5
   \<and> le_nan (b_quantity (example_bucket 1 5)) (low_sales_threshold buckets_5_5)
   \<and> avoid_restock (classify_buckets clock_zero no_names no_names buckets_5_5) = []"
proof -
  have "map rec_core (avoid_restock (classify_buckets clock_zero no_names no_names buckets_5_5)) = []"
    by (simp add: classify_buckets_avoid thresholds_5_5 ge_nan_def filter_empty_conv
        visit_order_set) (simp add: buckets_5_5_def example_bucket_def)
  then show ?thesis
    by (simp add: thresholds_5_5 le_nan_def) (simp add: buckets_5_5_def example_bucket_def)
qed





lemma classify_row_nan: "classify_row now None None pair pn sn acc row = acc"
  by (simp add: classify_row_def ge_nan_def le_nan_def)

lemma foldl_id: "(\<And>a x. f a x = a) \<Longrightarrow> foldl f acc xs = acc"
  by (induction xs) simp_all

lemma classify_pair_nan: "classify_pair now pns sns None None monthly acc pair = acc"
  by (simp add: classify_pair_def classify_row_nan foldl_id)

lemma single_bucket_thresholds:
  assumes "length monthly = 1"
  shows "series_std (map b_quantity monthly) = None"
    and "high_sales_threshold monthly = None"
    and "low_sales_threshold monthly = None"
  using assms
  by (simp_all add: series_std_def high_sales_threshold_def low_sales_threshold_def
      nan_add_def nan_sub_def split: option.splits)

lemma single_bucket_classify:
  assumes "length monthly = 1"
  shows "classify_buckets now pns sns monthly = no_patterns"
  by (simp add: classify_buckets_def single_bucket_thresholds [OF assms] classify_pair_nan foldl_id)

text \<open>
  C10. When the monthly aggregation has exactly one bucket, the sample standard deviation
  is NaN, so are both thresholds, no comparison holds, and the analyzer returns three
  empty lists (and inserts nothing).
\<close>

theorem single_bucket_no_recommendations:
  "(length monthly = 1 \<longrightarrow>
      series_std (map b_quantity monthly) = None
      \<and> high_sales_threshold monthly = None
      \<and> low_sales_threshold monthly = None
      \<and> classify_buckets now product_names shop_names monthly = no_patterns)
   \<and> (select_sales db (store_filter sid) = Inr sales \<and> sales \<noteq> []
        \<and> length (monthly_sales sales) = 1 \<longrightarrow>
      analyze_sales_patterns now db sid = Inr no_patterns)"
proof (intro conjI impI)
  assume one: "length monthly = 1"
  then show "series_std (map b_quantity monthly) = None"
    and "high_sales_threshold monthly = None"
    and "low_sales_threshold monthly = None"
    by (rule single_bucket_thresholds)+
  from one show "classify_buckets now product_names shop_names monthly = no_patterns"
    by (rule single_bucket_classify)
next
  assume a: "select_sales db (store_filter sid) = Inr sales \<and> sales \<noteq> []
        \<and> length (monthly_sales sales) = 1"
  then have "classify_buckets now (select_product_name db) (select_shop_name db)
      (monthly_sales sales) = no_patterns"
    by (intro single_bucket_classify) simp
  with a show "analyze_sales_patterns now db sid = Inr no_patterns"
    by (simp add: analyze_sales_patterns_def no_patterns_def)
qed

lemma monthly_sales_4_6:
  "monthly_sales [example_row 4, example_row 6] = [example_bucket 1 10]"
  by (simp add: monthly_sales_def groupby_sum_def example_row_def example_time_def
      sale_key_def to_period_M_def mk_bucket_def example_bucket_def wrap64_def)

theorem single_bucket_no_recommendations_witness:
  "length (monthly_sales [example_row 4, example_row 6]) = 1
   \<and> series_std (map b_quantity (monthly_sales [example_row 4, example_row 6])) = None
   \<and> classify_buckets clock_zero no_names no_names (monthly_sales [example_row 4, example_row 6])
       = no_patterns
   \<and> select_sales (example_db [example_row 4, example_row 6]) (store_filter PyNone)
       = Inr [example_row 4, example_row 6]
   \<and> [example_row 4, example_row 6] \<noteq> []
   \<and> analyze_sales_patterns clock_zero (example_db [example_row 4, example_row 6]) PyNone
       = Inr no_patterns"
  using single_bucket_no_recommendations
    [of "monthly_sales [example_row 4, example_row 6]" clock_zero no_names no_names
        "example_db [example_row 4, example_row 6]" PyNone "[example_row 4, example_row 6]"]
  by (simp add: monthly_sales_4_6 example_db_def)

subsection \<open>The analysis over float64 operations\<close>

lemma classify_row_fp_restock:
  "map rec_core (restock_recommendations (classify_row_fp ops now high low pair pn sn acc row)) =
     map rec_core (restock_recommendations acc) @
     (if pt_ge ops (b_quantity row) high
      then [((fst pair, snd pair, b_month row), b_quantity row, Restock_high_demand)] else [])"
  by (simp add: classify_row_fp_def Let_def rec_core_def rec_key_def)

lemma classify_row_fp_high_demand:
  "map rec_core (high_demand_periods (classify_row_fp ops now high low pair pn sn acc row)) =
     map rec_core (high_demand_periods acc) @
     (if pt_ge ops (b_quantity row) high
      then [((fst pair, snd pair, b_month row), b_quantity row, High_demand_plan_inventory)] else [])"
  by (simp add: classify_row_fp_def Let_def rec_core_def rec_key_def)

lemma classify_row_fp_avoid:
  "map rec_core (avoid_restock (classify_row_fp ops now high low pair pn sn acc row)) =
     map rec_core (avoid_restock acc) @
     (if \<not> pt_ge ops (b_quantity row) high \<and> pt_le ops (b_quantity row) low
      then [((fst pair, snd pair, b_month row), b_quantity row, Purchase_less_frequently)] else [])"
  by (simp add: classify_row_fp_def Let_def rec_core_def rec_key_def)

lemma classify_pair_fp_emit:
  assumes "\<And>acc row. map rec_core (sel (classify_row_fp ops now high low pair
              (product_name_of pns (fst pair)) (shop_name_of sns (snd pair)) acc row)) =
            map rec_core (sel acc) @
            (if P row then [((fst pair, snd pair, b_month row), b_quantity row, s)] else [])"
  shows "map rec_core (sel (classify_pair_fp ops now pns sns high low monthly acc pair)) =
     map rec_core (sel acc) @
     map (\<lambda>b. (bucket_key b, b_quantity b, s))
       (filter P (filter (\<lambda>b. bucket_pair b = pair) monthly))"
proof -
  let ?rows = "filter (\<lambda>b. bucket_pair b = pair) monthly"
  have "map rec_core (sel (classify_pair_fp ops now pns sns high low monthly acc pair)) =
      map rec_core (sel acc) @
      map (\<lambda>row. ((fst pair, snd pair, b_month row), b_quantity row, s)) (filter P ?rows)"
    unfolding classify_pair_fp_def Let_def
    by (rule foldl_emit [where g = "\<lambda>a. map rec_core (sel a)"]) (rule assms)
  also have "map (\<lambda>row. ((fst pair, snd pair, b_month row), b_quantity row, s)) (filter P ?rows) =
      map (\<lambda>b. (bucket_key b, b_quantity b, s)) (filter P ?rows)"
    by (rule map_cong) (auto simp: bucket_key_def bucket_pair_def)
  finally show ?thesis .
qed

lemma classify_buckets_fp_restock:
  "map rec_core (restock_recommendations (classify_buckets_fp ops now pns sns monthly)) =
     map (\<lambda>b. (bucket_key b, b_quantity b, Restock_high_demand))
       (filter (\<lambda>b. pt_ge ops (b_quantity b) (high_sales_threshold_fp ops monthly))
          (visit_order monthly))"
proof -
  have "map rec_core (restock_recommendations (classify_buckets_fp ops now pns sns monthly)) =
     map rec_core (restock_recommendations no_patterns) @
     map (\<lambda>b. (bucket_key b, b_quantity b, Restock_high_demand))
       (filter (\<lambda>b. pt_ge ops (b_quantity b) (high_sales_threshold_fp ops monthly))
          (visit_order monthly))"
    unfolding classify_buckets_fp_def visit_order_def
    by (rule foldl_pairs_emit [where g = "\<lambda>a. map rec_core (restock_recommendations a)"])
       (rule classify_pair_fp_emit, rule classify_row_fp_restock)
  then show ?thesis by (simp add: no_patterns_def)
qed

lemma classify_buckets_fp_high_demand:
  "map rec_core (high_demand_periods (classify_buckets_fp ops now pns sns monthly)) =
     map (\<lambda>b. (bucket_key b, b_quantity b, High_demand_plan_inventory))
       (filter (\<lambda>b. pt_ge ops (b_quantity b) (high_sales_threshold_fp ops monthly))
          (visit_order monthly))"
proof -
  have "map rec_core (high_demand_periods (classify_buckets_fp ops now pns sns monthly)) =
     map rec_core (high_demand_periods no_patterns) @
     map (\<lambda>b. (bucket_key b, b_quantity b, High_demand_plan_inventory))
       (filter (\<lambda>b. pt_ge ops (b_quantity b) (high_sales_threshold_fp ops monthly))
          (visit_order monthly))"
    unfolding classify_buckets_fp_def visit_order_def
    by (rule foldl_pairs_emit [where g = "\<lambda>a. map rec_core (high_demand_periods a)"])
       (rule classify_pair_fp_emit, rule classify_row_fp_high_demand)
  then show ?thesis by (simp add: no_patterns_def)
qed

lemma classify_buckets_fp_avoid:
  "map rec_core (avoid_restock (classify_buckets_fp ops now pns sns monthly)) =
     map (\<lambda>b. (bucket_key b, b_quantity b, Purchase_less_frequently))
       (filter (\<lambda>b. \<not> pt_ge ops (b_quantity b) (high_sales_threshold_fp ops monthly)
                    \<and> pt_le ops (b_quantity b) (low_sales_threshold_fp ops monthly))
          (visit_order monthly))"
proof -
  have "map rec_core (avoid_restock (classify_buckets_fp ops now pns sns monthly)) =
     map rec_core (avoid_restock no_patterns) @
     map (\<lambda>b. (bucket_key b, b_quantity b, Purchase_less_frequently))
       (filter (\<lambda>b. \<not> pt_ge ops (b_quantity b) (high_sales_threshold_fp ops monthly)
                    \<and> pt_le ops (b_quantity b) (low_sales_threshold_fp ops monthly))
          (visit_order monthly))"
    unfolding classify_buckets_fp_def visit_order_def
    by (rule foldl_pairs_emit [where g = "\<lambda>a. map rec_core (avoid_restock a)"])
       (rule classify_pair_fp_emit, rule classify_row_fp_avoid)
  then show ?thesis by (simp add: no_patterns_def)
qed

lemma classify_buckets_fp_bucket:
  assumes "distinct (map bucket_key monthly)" and "b \<in> set monthly"
  shows "map rec_core (emitted (restock_recommendations (classify_buckets_fp ops now pns sns monthly)) (bucket_key b)) =
           (if pt_ge ops (b_quantity b) (high_sales_threshold_fp ops monthly)
            then [(bucket_key b, b_quantity b, Restock_high_demand)] else [])"
    and "map rec_core (emitted (high_demand_periods (classify_buckets_fp ops now pns sns monthly)) (bucket_key b)) =
           (if pt_ge ops (b_quantity b) (high_sales_threshold_fp ops monthly)
            then [(bucket_key b, b_quantity b, High_demand_plan_inventory)] else [])"
    and "map rec_core (emitted (avoid_restock (classify_buckets_fp ops now pns sns monthly)) (bucket_key b)) =
           (if \<not> pt_ge ops (b_quantity b) (high_sales_threshold_fp ops monthly)
               \<and> pt_le ops (b_quantity b) (low_sales_threshold_fp ops monthly)
            then [(bucket_key b, b_quantity b, Purchase_less_frequently)] else [])"
  by (rule emitted_of_bucket [OF _ assms], rule classify_buckets_fp_restock)
     (rule emitted_of_bucket [OF _ assms], rule classify_buckets_fp_high_demand,
      rule emitted_of_bucket [OF _ assms], rule classify_buckets_fp_avoid)

lemma said_of_bucket:
  "map (\<lambda>e. (quantity_sold e, r_recommendation e))
       (filter (\<lambda>e. (r_product_id e, r_store_id e, r_month e) = bucket_key b) es)
     = map snd (map rec_core (emitted es (bucket_key b)))"
  by (simp add: emitted_def rec_core_def rec_key_def comp_def)

lemma classify_buckets_fp_said:
  assumes "distinct (map bucket_key monthly)" and "b \<in> set monthly"
  shows "map (\<lambda>e. (quantity_sold e, r_recommendation e))
           (filter (\<lambda>e. (r_product_id e, r_store_id e, r_month e) = bucket_key b)
              (restock_recommendations (classify_buckets_fp ops now pns sns monthly))) =
           (if pt_ge ops (b_quantity b) (high_sales_threshold_fp ops monthly)
            then [(b_quantity b, Restock_high_demand)] else [])"
    and "map (\<lambda>e. (quantity_sold e, r_recommendation e))
           (filter (\<lambda>e. (r_product_id e, r_store_id e, r_month e) = bucket_key b)
              (high_demand_periods (classify_buckets_fp ops now pns sns monthly))) =
           (if pt_ge ops (b_quantity b) (high_sales_threshold_fp ops monthly)
            then [(b_quantity b, High_demand_plan_inventory)] else [])"
    and "map (\<lambda>e. (quantity_sold e, r_recommendation e))
           (filter (\<lambda>e. (r_product_id e, r_store_id e, r_month e) = bucket_key b)
              (avoid_restock (classify_buckets_fp ops now pns sns monthly))) =
           (if \<not> pt_ge ops (b_quantity b) (high_sales_threshold_fp ops monthly)
               \<and> pt_le ops (b_quantity b) (low_sales_threshold_fp ops monthly)
            then [(b_quantity b, Purchase_less_frequently)] else [])"
  by (simp_all only: said_of_bucket classify_buckets_fp_bucket [OF assms] list.map snd_conv
        if_distrib [of "map snd"] cong: if_cong)

lemma classify_buckets_fp_exact:
  "classify_buckets_fp exact_pattern_ops now pns sns monthly = classify_buckets now pns sns monthly"
proof -
  have row: "classify_row_fp exact_pattern_ops now high low pair pn sn =
      classify_row now high low pair pn sn" for high low pair pn sn
    by (intro ext) (simp add: classify_row_fp_def classify_row_def exact_pattern_ops_def Let_def)
  have pair: "classify_pair_fp exact_pattern_ops now pns sns high low monthly =
      classify_pair now pns sns high low monthly" for high low
    by (intro ext) (simp add: classify_pair_fp_def classify_pair_def row)
  have high: "high_sales_threshold_fp exact_pattern_ops monthly = high_sales_threshold monthly"
    and low: "low_sales_threshold_fp exact_pattern_ops monthly = low_sales_threshold monthly"
    by (simp_all add: high_sales_threshold_fp_def low_sales_threshold_fp_def
        high_sales_threshold_def low_sales_threshold_def mean_sales_def exact_pattern_ops_def)
  show ?thesis
    by (simp only: classify_buckets_fp_def classify_buckets_def pair high low)
qed

text \<open>
  C3 (amended). Let the thresholds be the floats the script computes: the mean of all the
  bucket totals plus, and minus, their standard deviation, by the \<^verbatim>\<open>mean()\<close> and the
  \<^verbatim>\<open>std()\<close> of pandas (the sample deviation, NaN for a single bucket) and the float64
  sum and difference; the comparisons are those of an int64 with a float, and none with
  NaN holds. Over monthly rows with one row for a key, for every behaviour of these
  operations: a bucket whose total is at least the high threshold has exactly one Restock
  and one HighDemand recommendation and no Avoid-Restock one; a bucket whose total is at
  most the low threshold and not at least the high threshold has exactly one Avoid-Restock
  recommendation and no other; any other bucket has none. Every recommendation reports
  the total of its bucket.
\<close>

theorem classify_buckets_fp_per_bucket:
  "distinct (map (\<lambda>b. (b_product_id b, b_store_id b, b_month b)) monthly) \<and> b \<in> set monthly \<longrightarrow>
     (let result = classify_buckets_fp ops now product_names shop_names monthly;
          totals = map b_quantity monthly;
          high = pt_add ops (pt_mean ops totals) (pt_std ops totals);
          low = pt_sub ops (pt_mean ops totals) (pt_std ops totals);
          q = b_quantity b;
          is_high = pt_ge ops q high;
          is_low = pt_le ops q low;
          of_bucket = (\<lambda>es. map (\<lambda>e. (quantity_sold e, r_recommendation e))
                        (filter (\<lambda>e. (r_product_id e, r_store_id e, r_month e)
                                       = (b_product_id b, b_store_id b, b_month b)) es))
      in (is_high \<longrightarrow>
            of_bucket (restock_recommendations result) = [(q, Restock_high_demand)]
            \<and> of_bucket (high_demand_periods result) = [(q, High_demand_plan_inventory)]
            \<and> of_bucket (avoid_restock result) = [])
       \<and> (is_low \<and> \<not> is_high \<longrightarrow>
            of_bucket (avoid_restock result) = [(q, Purchase_less_frequently)]
            \<and> of_bucket (restock_recommendations result) = []
            \<and> of_bucket (high_demand_periods result) = [])
       \<and> (\<not> is_low \<and> \<not> is_high \<longrightarrow>
            of_bucket (restock_recommendations result) = []
            \<and> of_bucket (high_demand_periods result) = []
            \<and> of_bucket (avoid_restock result) = []))"
proof (intro impI)
  assume "distinct (map (\<lambda>b. (b_product_id b, b_store_id b, b_month b)) monthly) \<and> b \<in> set monthly"
  then have d: "distinct (map bucket_key monthly)" and b: "b \<in> set monthly"
    by (simp_all add: bucket_key_def [abs_def])
  note facts = classify_buckets_fp_said [OF d b, of ops now product_names shop_names,
      unfolded bucket_key_def high_sales_threshold_fp_def low_sales_threshold_fp_def]
  show "let result = classify_buckets_fp ops now product_names shop_names monthly;
          totals = map b_quantity monthly;
          high = pt_add ops (pt_mean ops totals) (pt_std ops totals);
          low = pt_sub ops (pt_mean ops totals) (pt_std ops totals);
          q = b_quantity b;
          is_high = pt_ge ops q high;
          is_low = pt_le ops q low;
          of_bucket = (\<lambda>es. map (\<lambda>e. (quantity_sold e, r_recommendation e))
                        (filter (\<lambda>e. (r_product_id e, r_store_id e, r_month e)
                                       = (b_product_id b, b_store_id b, b_month b)) es))
      in (is_high \<longrightarrow>
            of_bucket (restock_recommendations result) = [(q, Restock_high_demand)]
            \<and> of_bucket (high_demand_periods result) = [(q, High_demand_plan_inventory)]
            \<and> of_bucket (avoid_restock result) = [])
       \<and> (is_low \<and> \<not> is_high \<longrightarrow>
            of_bucket (avoid_restock result) = [(q, Purchase_less_frequently)]
            \<and> of_bucket (restock_recommendations result) = []
            \<and> of_bucket (high_demand_periods result) = [])
       \<and> (\<not> is_low \<and> \<not> is_high \<longrightarrow>
            of_bucket (restock_recommendations result) = []
            \<and> of_bucket (high_demand_periods result) = []
            \<and> of_bucket (avoid_restock result) = [])"
    unfolding Let_def by (simp only: facts) simp
qed

lemma exact_thresholds_1_5_9:
  "pt_add exact_pattern_ops (pt_mean exact_pattern_ops (map b_quantity buckets_1_5_9))
     (pt_std exact_pattern_ops (map b_quantity buckets_1_5_9)) = Some 9"
  "pt_sub exact_pattern_ops (pt_mean exact_pattern_ops (map b_quantity buckets_1_5_9))
     (pt_std exact_pattern_ops (map b_quantity buckets_1_5_9)) = Some 1"
  using thresholds_1_5_9
  by (simp_all add: exact_pattern_ops_def high_sales_threshold_def low_sales_threshold_def
      mean_sales_def)

lemma exact_comparisons:
  "pt_ge exact_pattern_ops q (Some x) \<longleftrightarrow> real_of_int q \<ge> x"
  "pt_le exact_pattern_ops q (Some x) \<longleftrightarrow> real_of_int q \<le> x"
  by (simp_all add: exact_pattern_ops_def ge_nan_def le_nan_def)

theorem classify_buckets_fp_per_bucket_witness:
  "distinct (map (\<lambda>b. (b_product_id b, b_store_id b, b_month b)) buckets_1_5_9)
   \<and> example_bucket 3 9 \<in> set buckets_1_5_9
   \<and> example_bucket 1 1 \<in> set buckets_1_5_9
   \<and> example_bucket 2 5 \<in> set buckets_1_5_9
   \<and> pt_add exact_pattern_ops (pt_mean exact_pattern_ops (map b_quantity buckets_1_5_9))
        (pt_std exact_pattern_ops (map b_quantity buckets_1_5_9)) = Some 9
   \<and> pt_sub exact_pattern_ops (pt_mean exact_pattern_ops (map b_quantity buckets_1_5_9))
        (pt_std exact_pattern_ops (map b_quantity buckets_1_5_9)) = Some 1
   \<and> pt_ge exact_pattern_ops 9 (Some 9)
   \<and> map (\<lambda>e. (quantity_sold e, r_recommendation e))
        (filter (\<lambda>e. (r_product_id e, r_store_id e, r_month e) = (3, 1, (2024, 1)))
           (restock_recommendations
              (classify_buckets_fp exact_pattern_ops clock_zero no_names no_names buckets_1_5_9)))
       = [(9, Restock_high_demand)]
   \<and> map (\<lambda>e. (quantity_sold e, r_recommendation e))
        (filter (\<lambda>e. (r_product_id e, r_store_id e, r_month e) = (3, 1, (2024, 1)))
           (high_demand_periods
              (classify_buckets_fp exact_pattern_ops clock_zero no_names no_names buckets_1_5_9)))
       = [(9, High_demand_plan_inventory)]
   \<and> pt_le exact_pattern_ops 1 (Some 1) \<and> \<not> pt_ge exact_pattern_ops 1 (Some 9)
   \<and> map (\<lambda>e. (quantity_sold e, r_recommendation e))
        (filter (\<lambda>e. (r_product_id e, r_store_id e, r_month e) = (1, 1, (2024, 1)))
           (avoid_restock
              (classify_buckets_fp exact_pattern_ops clock_zero no_names no_names buckets_1_5_9)))
       = [(1, Purchase_less_frequently)]
   \<and> \<not> pt_le exact_pattern_ops 5 (Some 1) \<and> \<not> pt_ge exact_pattern_ops 5 (Some 9)
   \<and> filter (\<lambda>e. (r_product_id e, r_store_id e, r_month e) = (2, 1, (2024, 1)))
        (avoid_restock
           (classify_buckets_fp exact_pattern_ops clock_zero no_names no_names buckets_1_5_9)) = []
   \<and> filter (\<lambda>e. (r_product_id e, r_store_id e, r_month e) = (2, 1, (2024, 1)))
        (restock_recommendations
           (classify_buckets_fp exact_pattern_ops clock_zero no_names no_names buckets_1_5_9)) = []"
  using classify_buckets_fp_per_bucket [where monthly = buckets_1_5_9 and b = "example_bucket 3 9"
      and ops = exact_pattern_ops and now = clock_zero and product_names = no_names
      and shop_names = no_names]
    classify_buckets_fp_per_bucket [where monthly = buckets_1_5_9 and b = "example_bucket 1 1"
      and ops = exact_pattern_ops and now = clock_zero and product_names = no_names
      and shop_names = no_names]
    classify_buckets_fp_per_bucket [where monthly = buckets_1_5_9 and b = "example_bucket 2 5"
      and ops = exact_pattern_ops and now = clock_zero and product_names = no_names
      and shop_names = no_names]
  by (simp add: Let_def exact_thresholds_1_5_9 exact_comparisons)
     (simp add: buckets_1_5_9_def example_bucket_def)

section \<open>Properties of the forecast\<close>

lemma sum_list_upt: "(\<Sum>i\<leftarrow>[0..<n]. f i) = (\<Sum>i<n. f i)" for f :: "nat \<Rightarrow> real"
  by (simp add: interv_sum_list_conv_sum_set_nat atLeast_upt)

lemma x_mean_sum: "x_mean n = (\<Sum>i<n. real i) / real n"
  by (simp add: x_mean_def sum_list_upt)

lemma np_mean_sum: "np_mean y = (\<Sum>i<length y. real_of_int (y ! i)) / real (length y)"
proof -
  have "real_of_int (sum_list y) = (\<Sum>i\<leftarrow>[0..<length y]. real_of_int (y ! i))"
    by (simp add: sum_list_sum_nth atLeast0LessThan)
  then show ?thesis by (simp add: np_mean_def sum_list_upt)
qed

lemma centred_x: "0 < n \<Longrightarrow> (\<Sum>i<n. real i - x_mean n) = 0"
  by (simp add: sum_subtractf x_mean_sum)

lemma centred_y: "0 < length y \<Longrightarrow> (\<Sum>i<length y. real_of_int (y ! i) - np_mean y) = 0"
  by (simp add: sum_subtractf np_mean_sum)

lemma sxx_pos:
  assumes "2 \<le> n"
  shows "0 < (\<Sum>i<n. (real i - x_mean n)\<^sup>2)"
proof -
  have "real 0 \<noteq> x_mean n \<or> real 1 \<noteq> x_mean n" by auto
  then obtain j where j: "j < n" "real j \<noteq> x_mean n"
    using assms by (metis Suc_1 Suc_le_lessD less_2_cases_iff less_le_trans not_less_eq zero_less_iff_neq_zero zero_less_numeral One_nat_def)
  have "0 < (real j - x_mean n)\<^sup>2" using j by simp
  also have "\<dots> \<le> (\<Sum>i<n. (real i - x_mean n)\<^sup>2)"
    by (rule member_le_sum) (use j in auto)
  finally show ?thesis .
qed

lemma sse_sum: "sse y a b = (\<Sum>i<length y. (real_of_int (y ! i) - (a + b * real i))\<^sup>2)"
  by (simp add: sse_def sum_list_upt)

lemma lr_coef_sum:
  "lr_coef y =
     (\<Sum>i<length y. (real i - x_mean (length y)) * (real_of_int (y ! i) - np_mean y))
     / (\<Sum>i<length y. (real i - x_mean (length y))\<^sup>2)"
  by (simp add: lr_coef_def sum_list_upt)

lemma residual_centred:
  "residual y i = (real_of_int (y ! i) - np_mean y) - lr_coef y * (real i - x_mean (length y))"
  by (simp add: residual_def lr_intercept_def algebra_simps)

lemma residual_sum_zero:
  assumes "2 \<le> length y"
  shows "(\<Sum>i<length y. residual y i) = 0"
proof -
  from assms have pos: "0 < length y" by linarith
  have "(\<Sum>i<length y. residual y i) =
      (\<Sum>i<length y. real_of_int (y ! i) - np_mean y)
      - lr_coef y * (\<Sum>i<length y. real i - x_mean (length y))"
    by (simp only: residual_centred sum_subtractf [of _ "\<lambda>i. lr_coef y * (real i - x_mean (length y))"]
          sum_distrib_left [symmetric])
  then show ?thesis
    by (simp only: centred_x [OF pos] centred_y [OF pos])
qed

lemma residual_sum_centred_zero:
  assumes "2 \<le> length y"
  shows "(\<Sum>i<length y. residual y i * (real i - x_mean (length y))) = 0"
proof -
  let ?n = "length y"
  let ?sxx = "\<Sum>i<?n. (real i - x_mean ?n)\<^sup>2"
  let ?sxy = "\<Sum>i<?n. (real i - x_mean ?n) * (real_of_int (y ! i) - np_mean y)"
  have "residual y i * (real i - x_mean ?n) =
      (real i - x_mean ?n) * (real_of_int (y ! i) - np_mean y)
      - lr_coef y * (real i - x_mean ?n)\<^sup>2" for i
    by (simp add: residual_centred power2_eq_square algebra_simps)
  then have "(\<Sum>i<?n. residual y i * (real i - x_mean ?n)) = ?sxy - lr_coef y * ?sxx"
    by (simp only: sum_subtractf sum_distrib_left)
  also have "lr_coef y * ?sxx = ?sxy"
    using sxx_pos [OF assms] by (simp add: lr_coef_sum)
  finally show ?thesis by simp
qed

lemma residual_sum_index_zero:
  assumes "2 \<le> length y"
  shows "(\<Sum>i<length y. residual y i * real i) = 0"
proof -
  let ?n = "length y"
  have "residual y i * real i =
      residual y i * (real i - x_mean ?n) + x_mean ?n * residual y i" for i
    by (simp add: algebra_simps)
  then have "(\<Sum>i<?n. residual y i * real i) =
      (\<Sum>i<?n. residual y i * (real i - x_mean ?n)) + x_mean ?n * (\<Sum>i<?n. residual y i)"
    by (simp only: sum.distrib sum_distrib_left)
  then show ?thesis
    by (simp only: residual_sum_zero [OF assms] residual_sum_centred_zero [OF assms])
qed

lemma sse_decomposition:
  assumes "2 \<le> length y"
  shows "sse y a b = sse y (lr_intercept y) (lr_coef y)
      + (\<Sum>i<length y. ((lr_intercept y - a) + (lr_coef y - b) * real i)\<^sup>2)"
proof -
  let ?n = "length y"
  let ?d = "\<lambda>i. (lr_intercept y - a) + (lr_coef y - b) * real i"
  have "(real_of_int (y ! i) - (a + b * real i))\<^sup>2 =
      (residual y i)\<^sup>2 + (2 * (lr_intercept y - a) * residual y i
         + 2 * (lr_coef y - b) * (residual y i * real i)) + (?d i)\<^sup>2" for i
    by (simp add: residual_def power2_eq_square algebra_simps)
  then have "sse y a b = (\<Sum>i<?n. (residual y i)\<^sup>2)
      + (2 * (lr_intercept y - a) * (\<Sum>i<?n. residual y i)
         + 2 * (lr_coef y - b) * (\<Sum>i<?n. residual y i * real i))
      + (\<Sum>i<?n. (?d i)\<^sup>2)"
    by (simp only: sse_sum sum.distrib sum_distrib_left)
  also have "(\<Sum>i<?n. (residual y i)\<^sup>2) = sse y (lr_intercept y) (lr_coef y)"
    by (simp add: sse_sum residual_def)
  finally show ?thesis
    by (simp only: residual_sum_zero [OF assms] residual_sum_index_zero [OF assms])
qed

lemma lr_least_squares:
  assumes "2 \<le> length y"
  shows "least_squares_line y (lr_intercept y) (lr_coef y)"
  unfolding least_squares_line_def
proof (intro allI)
  fix a b
  have "0 \<le> (\<Sum>i<length y. ((lr_intercept y - a) + (lr_coef y - b) * real i)\<^sup>2)"
    by (rule sum_nonneg) simp
  then show "sse y (lr_intercept y) (lr_coef y) \<le> sse y a b"
    by (simp add: sse_decomposition [OF assms, of a b])
qed

lemma least_squares_unique:
  assumes "2 \<le> length y" and "least_squares_line y a b"
  shows "a = lr_intercept y \<and> b = lr_coef y"
proof -
  let ?d = "\<lambda>i. (lr_intercept y - a) + (lr_coef y - b) * real i"
  from assms(2) have "sse y a b \<le> sse y (lr_intercept y) (lr_coef y)"
    by (simp add: least_squares_line_def)
  then have "(\<Sum>i<length y. (?d i)\<^sup>2) \<le> 0"
    by (simp add: sse_decomposition [OF assms(1), of a b])
  moreover have "0 \<le> (\<Sum>i<length y. (?d i)\<^sup>2)"
    by (rule sum_nonneg) simp
  ultimately have "(\<Sum>i<length y. (?d i)\<^sup>2) = 0" by simp
  then have zero: "\<forall>i\<in>{..<length y}. (?d i)\<^sup>2 = 0"
    by (subst (asm) sum_nonneg_eq_0_iff) simp_all
  from assms(1) have "0 < length y" "1 < length y" by linarith+
  then have "0 \<in> {..<length y}" "1 \<in> {..<length y}" by simp_all
  with zero have "(?d 0)\<^sup>2 = 0" "(?d 1)\<^sup>2 = 0" by blast+
  then have "?d 0 = 0" "?d 1 = 0" by simp_all
  then show ?thesis by simp
qed

lemma lr_10_20_30: "lr_intercept [10, 20, 30] = 10" "lr_coef [10, 20, 30] = 10"
proof -
  have xm: "x_mean (Suc (Suc (Suc 0))) = 1" by (simp add: x_mean_def)
  show c: "lr_coef [10, 20, 30] = 10"
    by (simp add: lr_coef_def xm np_mean_def upt_rec)
  show "lr_intercept [10, 20, 30] = 10"
    by (simp add: lr_intercept_def c xm np_mean_def)
qed

lemma round2_40: "round2 40 = 40"
  by (simp add: round2_def round_half_even_def)

lemma forecast_10_20_30:
  "forecast_series clock_zero inventory_5_0 (ProductLabel 1) (StoreLabel 1) [] (1, 1) [10, 20, 30] =
     Inr [\<lparr>f_product_id = 1, f_store_id = 1, predicted_demand = 40, current_stock = 5,
           f_product_name = ProductLabel 1, f_shop_name = StoreLabel 1,
           f_recommendation = Restock_recommended,
           forecast_period_of = 2592000, f_created_at = 0\<rparr>]"
  by (simp add: forecast_series_def lr_predict_def lr_10_20_30 round2_40 inventory_5_0_def
      current_stock_of_def reorder_level_of_def clock_zero_def)



subsection \<open>The forecast over float64 operations\<close>

lemma exact_forecast_least_squares:
  assumes "2 \<le> length y"
  shows "\<exists>a b. least_squares_line y a b
           \<and> (\<forall>a' b'. least_squares_line y a' b' \<longrightarrow> a' = a \<and> b' = b)
           \<and> fc_predict exact_forecast_ops y = a + b * real (length y)"
proof -
  have "least_squares_line y (lr_intercept y) (lr_coef y)"
    using assms by (rule lr_least_squares)
  moreover have "\<forall>a' b'. least_squares_line y a' b' \<longrightarrow> a' = lr_intercept y \<and> b' = lr_coef y"
    using least_squares_unique [OF assms] by blast
  moreover have "fc_predict exact_forecast_ops y = lr_intercept y + lr_coef y * real (length y)"
    by (simp add: exact_forecast_ops_def lr_predict_def)
  ultimately show ?thesis by blast
qed

lemma forecast_series_fp_exact:
  "forecast_series_fp exact_forecast_ops now inventory pn sn forecasts pair y =
     forecast_series now inventory pn sn forecasts pair y"
proof -
  let ?p = "lr_predict y (real (length y))"
  have clamp: "reported_fp exact_forecast_ops (clamp_fp exact_forecast_ops ?p) = round2 (max 0 ?p)"
    by (simp add: reported_fp_def clamp_fp_def exact_forecast_ops_def max_def round2_def
        round_half_even_def)
  have exceeds: "exceeds_fp exact_forecast_ops (clamp_fp exact_forecast_ops ?p) level
      \<longleftrightarrow> max 0 ?p > real_of_int level" for level
    by (simp add: exceeds_fp_def clamp_fp_def exact_forecast_ops_def max_def)
  have predict: "fc_predict exact_forecast_ops y = ?p"
    by (simp add: exact_forecast_ops_def)
  show ?thesis
    by (simp add: forecast_series_fp_def forecast_series_def Let_def predict clamp exceeds
        split: sum.splits)
qed










section \<open>Empty input, and the endpoint\<close>

text \<open>
  C5. On an empty result of the query: the aggregation is empty, and the two functions of
  recommendations.py return empty lists; \<^verbatim>\<open>forecast_demand\<close> and \<^verbatim>\<open>detect_anomalies\<close> of
  salesforcast.py raise \<open>KeyError\<close>.
\<close>

theorem empty_input_outputs:
  "monthly_sales [] = []
   \<and> recommendations_detect_anomalies now (db\<lparr>select_sales := \<lambda>f. Inr []\<rparr>) fit_predict sid = Inr []
   \<and> analyze_sales_patterns now (db\<lparr>select_sales := \<lambda>f. Inr []\<rparr>) sid = Inr no_patterns
   \<and> forecast_demand now inventory_of product_names shop_names [] = Inl (KeyError ''sold_at'')
   \<and> salesforcast_detect_anomalies now [] = Inl (KeyError ''sold_at'')"
  by (simp add: monthly_sales_def groupby_sum_def recommendations_detect_anomalies_def
      analyze_sales_patterns_def forecast_demand_def salesforcast_detect_anomalies_def)

theorem empty_input_outputs_witness:
  "analyze_sales_patterns clock_zero (example_db []) PyNone = Inr no_patterns
   \<and> recommendations_detect_anomalies clock_zero (example_db []) all_inliers PyNone = Inr []
   \<and> forecast_demand clock_zero no_inventory no_names no_names [] = Inl (KeyError ''sold_at'')"
proof -
  have "example_db [] = (example_db [])\<lparr>select_sales := \<lambda>f. Inr []\<rparr>"
    by (simp add: example_db_def)
  then show ?thesis
    using empty_input_outputs [of clock_zero "example_db []" all_inliers PyNone no_inventory
        no_names no_names]
    by simp
qed

text \<open>
  C7 (amended). A request whose \<open>store_id\<close> is present, not empty and not parseable as
  an integer (\<^verbatim>\<open>int\<close> raises \<open>ValueError\<close>) is answered 400 with no call of the anomaly
  detection or the pattern analysis. An empty \<open>store_id\<close> is not parsed and applies no
  filter; an absent one applies none, and a parseable one is passed on as its integer.
  For a request that passes, an exception of the anomaly detection or of the pattern
  analysis is answered 500 with the message \<^verbatim>\<open>Internal Server Error: \<close> followed by the
  text of the exception. This holds whatever \<^verbatim>\<open>int\<close> parses.
\<close>

theorem endpoint_client_and_server_errors:
  "(s \<noteq> [] \<and> int_of_str s = None \<longrightarrow>
      recommendations_endpoint int_of_str dops pops g forest now db (Some s)
        = ((400, Error_body ''Invalid store_id format''), []))
   \<and> store_id_of_request int_of_str None = Inr PyNone
   \<and> (s \<noteq> [] \<and> int_of_str s = Some n \<longrightarrow>
        store_id_of_request int_of_str (Some s) = Inr (PyInt n))
   \<and> store_id_of_request int_of_str (Some []) = Inr (PyStr [])
   \<and> store_filter (PyStr []) = PyNone
   \<and> (store_id_of_request int_of_str arg = Inr sid
        \<and> recommendations_detect_anomalies_fp dops g forest now db sid = Inl e \<longrightarrow>
      recommendations_endpoint int_of_str dops pops g forest now db arg
        = ((500, Error_body (''Internal Server Error: '' @ exn_str e)),
           [Call_detect_anomalies]))
   \<and> (store_id_of_request int_of_str arg = Inr sid
        \<and> recommendations_detect_anomalies_fp dops g forest now db sid = Inr anomalies
        \<and> analyze_sales_patterns_fp pops (\<lambda>k. now (k + length anomalies)) db sid = Inl e \<longrightarrow>
      recommendations_endpoint int_of_str dops pops g forest now db arg
        = ((500, Error_body (''Internal Server Error: '' @ exn_str e)),
           [Call_detect_anomalies, Call_analyze_sales_patterns]))"
  by (simp add: recommendations_endpoint_def store_id_of_request_def store_filter_def)

lemma monthly_sales_5_5: "monthly_sales sales_5_5 = buckets_5_5"
  by (simp add: monthly_sales_def groupby_sum_def sales_5_5_def example_time_def
      sale_key_def to_period_M_def mk_bucket_def buckets_5_5_def example_bucket_def)

lemma detect_fp_failing_insert_db:
  "recommendations_detect_anomalies_fp dops g forest now failing_insert_db PyNone = Inr []"
  by (simp add: recommendations_detect_anomalies_fp_def failing_insert_db_def sales_5_5_def
      density_anomalies_fp_def density_pair_fp_def sale_pair_def)

lemma analyze_fp_failing_insert_db:
  "analyze_sales_patterns_fp exact_pattern_ops now failing_insert_db PyNone
     = Inl (UpstreamError ''insert failed'')"
proof -
  have "map rec_core (restock_recommendations
          (classify_buckets_fp exact_pattern_ops now no_names no_names buckets_5_5)) \<noteq> []"
    by (simp add: classify_buckets_fp_exact classify_buckets_restock thresholds_5_5 ge_nan_def
        visit_order_def)
       (simp add: buckets_5_5_def example_bucket_def bucket_pair_def)
  then have "restock_recommendations
      (classify_buckets_fp exact_pattern_ops now no_names no_names buckets_5_5) \<noteq> []"
    by auto
  then show ?thesis
    by (simp add: analyze_sales_patterns_fp_def failing_insert_db_def monthly_sales_5_5)
       (simp add: sales_5_5_def)
qed

theorem endpoint_client_and_server_errors_witness:
  "''abc'' \<noteq> [] \<and> example_int ''abc'' = None
   \<and> recommendations_endpoint example_int exact_density_ops exact_pattern_ops 0 example_forest
        clock_zero (example_db []) (Some ''abc'')
       = ((400, Error_body ''Invalid store_id format''), [])
   \<and> ''42'' \<noteq> [] \<and> example_int ''42'' = Some 42
   \<and> store_id_of_request example_int (Some ''42'') = Inr (PyInt 42)
   \<and> store_id_of_request example_int None = Inr PyNone
   \<and> recommendations_detect_anomalies_fp exact_density_ops 0 example_forest clock_zero
        failing_db PyNone = Inl (UpstreamError ''connection refused'')
   \<and> recommendations_endpoint example_int exact_density_ops exact_pattern_ops 0 example_forest
        clock_zero failing_db None
       = ((500, Error_body ''Internal Server Error: connection refused''),
          [Call_detect_anomalies])
   \<and> recommendations_detect_anomalies_fp exact_density_ops 0 example_forest clock_zero
        failing_insert_db PyNone = Inr []
   \<and> analyze_sales_patterns_fp exact_pattern_ops (\<lambda>k. clock_zero (k + length ([] :: named_anomaly list)))
        failing_insert_db PyNone = Inl (UpstreamError ''insert failed'')
   \<and> recommendations_endpoint example_int exact_density_ops exact_pattern_ops 0 example_forest
        clock_zero failing_insert_db None
       = ((500, Error_body ''Internal Server Error: insert failed''),
          [Call_detect_anomalies, Call_analyze_sales_patterns])"
proof -
  have fails: "recommendations_detect_anomalies_fp exact_density_ops 0 example_forest clock_zero
        failing_db PyNone = Inl (UpstreamError ''connection refused'')"
    by (simp add: recommendations_detect_anomalies_fp_def failing_db_def)
  have passes: "store_id_of_request example_int None = Inr PyNone"
    by (simp add: store_id_of_request_def)
  have abc: "example_int ''abc'' = None" and n42: "example_int ''42'' = Some 42"
    by (simp_all add: example_int_def)
  note inst = endpoint_client_and_server_errors [where int_of_str = example_int
      and dops = exact_density_ops and pops = exact_pattern_ops and g = 0
      and forest = example_forest and now = clock_zero]
  from inst [where s = "''abc''" and db = "example_db []"]
  have bad: "recommendations_endpoint example_int exact_density_ops exact_pattern_ops 0
        example_forest clock_zero (example_db []) (Some ''abc'')
       = ((400, Error_body ''Invalid store_id format''), [])"
    by (simp add: abc)
  from inst [where s = "''42''" and n = 42]
  have good: "store_id_of_request example_int (Some ''42'') = Inr (PyInt 42)"
    by (simp add: n42)
  from inst [where s = "''abc''" and db = failing_db and arg = None and sid = PyNone
      and e = "UpstreamError ''connection refused''"]
  have first: "recommendations_endpoint example_int exact_density_ops exact_pattern_ops 0
        example_forest clock_zero failing_db None
       = ((500, Error_body ''Internal Server Error: connection refused''),
          [Call_detect_anomalies])"
    by (simp add: fails passes)
  from inst [where s = "''abc''" and db = failing_insert_db and arg = None and sid = PyNone
      and e = "UpstreamError ''insert failed''" and anomalies = "[]"]
  have second: "recommendations_endpoint example_int exact_density_ops exact_pattern_ops 0
        example_forest clock_zero failing_insert_db None
       = ((500, Error_body ''Internal Server Error: insert failed''),
          [Call_detect_anomalies, Call_analyze_sales_patterns])"
    by (simp add: passes detect_fp_failing_insert_db analyze_fp_failing_insert_db)
  show ?thesis
    using bad good first second
    by (simp add: abc n42 passes fails detect_fp_failing_insert_db analyze_fp_failing_insert_db)
qed

text \<open>
  The request \<^verbatim>\<open>?store_id=\<close>: the argument is present and \<^verbatim>\<open>int("")\<close> raises
  \<open>ValueError\<close>, and the endpoint runs both computations and answers 200.
\<close>

theorem endpoint_empty_store_id_counterexample:
  "example_int '''' = None
   \<and> recommendations_endpoint example_int exact_density_ops exact_pattern_ops 0 example_forest
        clock_zero (example_db []) (Some '''')
       = ((200, Recommendations [] no_patterns),
          [Call_detect_anomalies, Call_analyze_sales_patterns])"
  by (simp add: example_int_def recommendations_endpoint_def store_id_of_request_def
      recommendations_detect_anomalies_fp_def analyze_sales_patterns_fp_def example_db_def)

text \<open>
  The request \<^verbatim>\<open>?store_id=0\<close>, when \<^verbatim>\<open>int\<close> parses it to 0: the integer 0 is falsy, and
  both functions query the sales of all stores.
\<close>

lemma store_id_zero_applies_no_filter:
  "s \<noteq> [] \<and> int_of_str s = Some 0 \<Longrightarrow>
     store_id_of_request int_of_str (Some s) = Inr (PyInt 0) \<and> store_filter (PyInt 0) = PyNone"
  by (simp add: store_id_of_request_def store_filter_def)

section \<open>Two runs of the anomaly detection\<close>




subsection \<open>The z-score detector\<close>






subsection \<open>The density-based detector\<close>















text \<open>
  Why the seed is there: the forest of the examples, when it is given no seed, labels the
  quantity 5 an outlier in a run whose state is 0 and an inlier in a run whose state is 7.
\<close>

lemma unseeded_forest_runs_differ:
  "example_forest 0 None [5] = Inr [- 1] \<and> example_forest 7 None [5] = Inr [1]"
  by (simp add: example_forest_def)

end
